theory Spec2Isabelle
  imports Complex_Main
begin

section \<open>Numbers of the ledger\<close>

text \<open>
  The program is JavaScript: every amount and balance is a Number, a binary64
  floating-point value. The model keeps apart not-a-number (what \<^verbatim>\<open>parseFloat\<close>
  returns for an empty or malformed field, and what arithmetic on \<^verbatim>\<open>undefined\<close>
  gives), the two infinities (\<^verbatim>\<open>parseFloat("Infinity")\<close>), and the finite numbers,
  each given by its real value. The arithmetic operations round their exact result to
  the nearest binary64 value, ties to the even significand, and overflow to an
  infinity. Only the sign of zero is not kept.
\<close>

datatype jsnum = NaN | PInf | NInf | Fin real

text \<open>
  Rounding to the nearest integer, ties to the even one.
\<close>

definition round_half_even :: "real \<Rightarrow> int" where
  "round_half_even q =
     (let f = \<lfloor>q\<rfloor>; d = q - of_int f
      in if d < 1 / 2 then f else if 1 / 2 < d then f + 1 else if even f then f else f + 1)"

text \<open>
  The exponent of the unit in the last place of the binary64 values around \<open>x\<close>
  (\<open>x\<close> not zero): 52 binary places below the leading bit, and never below the
  exponent \<open>-1074\<close> of the subnormal numbers.
\<close>

definition ulp_exponent :: "real \<Rightarrow> int" where
  "ulp_exponent x = max (\<lfloor>log 2 \<bar>x\<bar>\<rfloor> - 52) (- 1074)"

text \<open>
  The binary64 value of a real result: the nearest multiple of the unit in the last
  place, an infinity once that reaches \<open>2 ^ 1024\<close>.
\<close>

definition round64 :: "real \<Rightarrow> jsnum" where
  "round64 x =
     (if x = 0 then Fin 0
      else
        (let e = ulp_exponent x;
             r = of_int (round_half_even (x / 2 powi e)) * 2 powi e
         in if 2 ^ 1024 \<le> \<bar>r\<bar> then (if 0 < x then PInf else NInf) else Fin r))"

text \<open>\<^verbatim>\<open>isNaN(x)\<close>\<close>

fun isNaN :: "jsnum \<Rightarrow> bool" where
  "isNaN NaN = True"
| "isNaN _ = False"

text \<open>\<^verbatim>\<open>a < b\<close>: false as soon as one side is not a number.\<close>

fun jlt :: "jsnum \<Rightarrow> jsnum \<Rightarrow> bool" where
  "jlt (Fin a) (Fin b) = (a < b)"
| "jlt NInf (Fin b) = True"
| "jlt NInf PInf = True"
| "jlt (Fin a) PInf = True"
| "jlt _ _ = False"

text \<open>\<^verbatim>\<open>a <= b\<close>\<close>

definition jle :: "jsnum \<Rightarrow> jsnum \<Rightarrow> bool" where
  "jle a b = (\<not> isNaN a \<and> \<not> isNaN b \<and> (a = b \<or> jlt a b))"

fun jneg :: "jsnum \<Rightarrow> jsnum" where
  "jneg NaN = NaN"
| "jneg PInf = NInf"
| "jneg NInf = PInf"
| "jneg (Fin a) = Fin (- a)"

text \<open>\<^verbatim>\<open>a + b\<close> on Numbers.\<close>

fun jadd :: "jsnum \<Rightarrow> jsnum \<Rightarrow> jsnum" where
  "jadd (Fin a) (Fin b) = round64 (a + b)"
| "jadd NaN _ = NaN"
| "jadd _ NaN = NaN"
| "jadd PInf NInf = NaN"
| "jadd NInf PInf = NaN"
| "jadd PInf _ = PInf"
| "jadd _ PInf = PInf"
| "jadd NInf _ = NInf"
| "jadd _ NInf = NInf"

text \<open>\<^verbatim>\<open>a - b\<close>\<close>

definition jsub :: "jsnum \<Rightarrow> jsnum \<Rightarrow> jsnum" where
  "jsub a b = jadd a (jneg b)"

text \<open>The sign of a Number that is not NaN, as \<open>-1\<close>, \<open>0\<close> or \<open>1\<close>.\<close>

fun jsign :: "jsnum \<Rightarrow> real" where
  "jsign (Fin a) = sgn a"
| "jsign PInf = 1"
| "jsign NInf = - 1"
| "jsign NaN = 0"

text \<open>\<^verbatim>\<open>a * b\<close>: an infinity times zero is not a number.\<close>

fun jmul :: "jsnum \<Rightarrow> jsnum \<Rightarrow> jsnum" where
  "jmul (Fin a) (Fin b) = round64 (a * b)"
| "jmul NaN _ = NaN"
| "jmul _ NaN = NaN"
| "jmul a b =
     (let s = jsign a * jsign b
      in if s = 0 then NaN else if 0 < s then PInf else NInf)"

text \<open>
  \<^verbatim>\<open>a / b\<close>: a finite number over zero is an infinity (zero counts as positive
  zero), zero over zero and infinity over infinity are not numbers.
\<close>

fun jdiv :: "jsnum \<Rightarrow> jsnum \<Rightarrow> jsnum" where
  "jdiv (Fin a) (Fin b) =
     (if b = 0 then (if a = 0 then NaN else if 0 < a then PInf else NInf)
      else round64 (a / b))"
| "jdiv NaN _ = NaN"
| "jdiv _ NaN = NaN"
| "jdiv (Fin a) _ = Fin 0"
| "jdiv PInf (Fin b) = (if b < 0 then NInf else PInf)"
| "jdiv NInf (Fin b) = (if b < 0 then PInf else NInf)"
| "jdiv _ _ = NaN"

text \<open>
  A property read from an object is \<open>None\<close> when the object has no such property
  (\<^verbatim>\<open>undefined\<close>). In arithmetic and comparisons \<^verbatim>\<open>undefined\<close> converts to NaN.
\<close>

fun toNumber :: "jsnum option \<Rightarrow> jsnum" where
  "toNumber None = NaN"
| "toNumber (Some v) = v"

text \<open>\<^verbatim>\<open>(x || 0)\<close>: \<^verbatim>\<open>undefined\<close>, NaN and zero are falsy.\<close>

fun orZero :: "jsnum option \<Rightarrow> jsnum" where
  "orZero None = Fin 0"
| "orZero (Some NaN) = Fin 0"
| "orZero (Some v) = v"

section \<open>System state (core\_logic.js)\<close>

text \<open>
  An account object has the properties \<^verbatim>\<open>id\<close> and \<^verbatim>\<open>name\<close> and one property per
  currency code. The record keeps the currency properties in a map of their own, apart
  from the id and the name. In the code they are properties of one object, so a
  currency code equal to \<^verbatim>\<open>id\<close> or \<^verbatim>\<open>name\<close> reads and writes the id or the name:
  the record agrees with the object only for the codes that \<open>balance_key\<close> below
  admits, and every statement about the balances after an act has \<open>balance_key\<close> of
  the currencies among its hypotheses.
\<close>

record account =
  acc_id :: string
  acc_name :: string
  balances :: "string \<rightharpoonup> jsnum"

text \<open>
  \<^verbatim>\<open>vibration_level: { value, last_decay }\<close>. The gauge starts at 0 and is only ever
  changed by \<open>addVibration\<close>, \<open>decayVibration\<close> and \<open>resetVibration\<close>, which keep it
  finite; it is a real number, and its arithmetic is exact (the rounding of the gauge
  is not modelled). \<^verbatim>\<open>Date.now()\<close> is an integer number of milliseconds.
\<close>

record vibration =
  vib_value :: real
  last_decay :: int

record infra_entry =
  infra_value :: jsnum
  last_change :: int

record system_state =
  isHalted :: bool
  vibration_level :: vibration
  currency_rates :: "string \<rightharpoonup> real"
  accounts :: "account list"
  infrastructure :: "string \<rightharpoonup> infra_entry"

text \<open>
  The argument of \<open>saveSystemState\<close>: every call in the program passes an object with
  exactly one of these keys.
\<close>

datatype patch =
    P_isHalted bool
  | P_vibration_level vibration
  | P_accounts "account list"
  | P_infrastructure "string \<rightharpoonup> infra_entry"

text \<open>\<^verbatim>\<open>{ ...currentState, ...updateData }\<close>\<close>

fun merge :: "system_state \<Rightarrow> patch \<Rightarrow> system_state" where
  "merge s (P_isHalted b) = s\<lparr>isHalted := b\<rparr>"
| "merge s (P_vibration_level v) = s\<lparr>vibration_level := v\<rparr>"
| "merge s (P_accounts a) = s\<lparr>accounts := a\<rparr>"
| "merge s (P_infrastructure i) = s\<lparr>infrastructure := i\<rparr>"

text \<open>
  The module variable \<^verbatim>\<open>currentState\<close>, and the sequence of patches handed to the
  document store by \<^verbatim>\<open>updateDoc\<close> (oldest first). The acts are run one after the other;
  a failed write is caught and logged and changes nothing here. The console log is not
  part of the state.
\<close>

record world =
  currentState :: system_state
  firestore :: "patch list"

text \<open>
  The limit of the gauge that the validation tests; twice the limit is the ceiling of
  the gauge. core\_logic.js declares the constant, and the acts are modelled with the
  value declared there.
\<close>

definition VIBRATION_LIMIT :: real where
  "VIBRATION_LIMIT = 100"

definition getCurrentState :: "world \<Rightarrow> system_state" where
  "getCurrentState w = currentState w"

definition saveSystemState :: "patch \<Rightarrow> world \<Rightarrow> world" where
  "saveSystemState updateData w =
     w\<lparr>currentState := merge (currentState w) updateData,
       firestore := firestore w @ [updateData]\<rparr>"

definition addVibration :: "real \<Rightarrow> world \<Rightarrow> world" where
  "addVibration amount w =
     (let newVibration =
            min (vib_value (vibration_level (currentState w)) + amount) (VIBRATION_LIMIT * 2)
      in saveSystemState
           (P_vibration_level ((vibration_level (currentState w))\<lparr>vib_value := newVibration\<rparr>)) w)"

text \<open>\<open>now\<close> is the value of \<^verbatim>\<open>Date.now()\<close> at the call.\<close>

definition decayVibration :: "int \<Rightarrow> world \<Rightarrow> world" where
  "decayVibration now w =
     (let lastDecay = last_decay (vibration_level (currentState w));
          timeElapsed = real_of_int (now - lastDecay) / 1000
      in if timeElapsed \<ge> 1 then
           (let decayRate = 0.5;
                decayAmount = timeElapsed * decayRate;
                newValue = max 0 (vib_value (vibration_level (currentState w)) - decayAmount)
            in if \<bar>newValue - vib_value (vibration_level (currentState w))\<bar> \<ge> 1
               then saveSystemState
                      (P_vibration_level \<lparr>vib_value = newValue, last_decay = now\<rparr>) w
               else w\<lparr>currentState := (currentState w)
                       \<lparr>vibration_level := \<lparr>vib_value = newValue, last_decay = now\<rparr>\<rparr>\<rparr>)
         else w)"

definition resetVibration :: "int \<Rightarrow> world \<Rightarrow> world" where
  "resetVibration now w =
     saveSystemState (P_vibration_level \<lparr>vib_value = 0, last_decay = now\<rparr>) w"

section \<open>Acts (audit\_acts.js, infra\_acts.js)\<close>

text \<open>
  An act logs a message and returns; what it did shows in the state. The model returns
  the reason of a refusal (\<open>None\<close> when the act was carried out) together with the
  world after the call. The constructors follow the messages of the source: one for
  each refusal of halt, restart and create-account (\<open>SystemHalted\<close> is also what
  create-account reports on a halted system), the seven of \<open>validateAct\<close> in the order
  of its checks, and the equal currencies of an exchange.
\<close>

datatype error =
    AlreadyHalted
  | AlreadyRunning
  | InvalidOrDuplicateId
  | SystemHalted
  | VibrationExceeded
  | InvalidAmount
  | UnknownCurrency
  | SenderNotFound "string option"
  | RecipientNotFound "string option"
  | InsufficientBalance "string option" string
  | SameCurrency

definition actForcedHalt :: "world \<Rightarrow> error option \<times> world" where
  "actForcedHalt w =
     (let state = getCurrentState w
      in if isHalted state then (Some AlreadyHalted, w)
         else (None, addVibration 5 (saveSystemState (P_isHalted True) w)))"

definition actRestart :: "world \<Rightarrow> error option \<times> world" where
  "actRestart w =
     (let state = getCurrentState w
      in if \<not> isHalted state then (Some AlreadyRunning, w)
         else (None, addVibration 5 (saveSystemState (P_isHalted False) w)))"

text \<open>
  A form field read with \<^verbatim>\<open>document.getElementById(..)?.value.trim()\<close> is \<open>None\<close>
  when the element is missing (\<^verbatim>\<open>undefined\<close>); \<open>falsy\<close> is \<^verbatim>\<open>!x\<close> on such a value.
\<close>

fun falsy :: "string option \<Rightarrow> bool" where
  "falsy None = True"
| "falsy (Some s) = (s = [])"

text \<open>The UTF-8 bytes of the label that starts the default account name, a space last.\<close>

definition default_name_label :: string where
  "default_name_label = map char_of
     [231, 155, 163, 230, 159, 187, 227, 130, 162, 227, 130, 171, 227, 130, 166,
      227, 131, 179, 227, 131, 136, 32 :: nat]"

definition handleCreateAccountAct ::
  "string option \<Rightarrow> string option \<Rightarrow> world \<Rightarrow> error option \<times> world" where
  "handleCreateAccountAct newId newName w =
     (let state = getCurrentState w
      in if falsy newId \<or> list_ex (\<lambda>acc. Some (acc_id acc) = newId) (accounts state)
         then (Some InvalidOrDuplicateId, w)
         else if isHalted state then (Some SystemHalted, w)
         else
           (let newAccount =
                  \<lparr>acc_id = the newId,
                   acc_name = (if falsy newName then default_name_label @ the newId
                               else the newName),
                   balances = [''ALPHA'' \<mapsto> Fin 0, ''BETA'' \<mapsto> Fin 0, ''GAMMA'' \<mapsto> Fin 0]\<rparr>;
                newAccounts = accounts state @ [newAccount]
            in (None, addVibration 1 (saveSystemState (P_accounts newAccounts) w))))"

text \<open>What \<open>validateAct\<close> returns when every check passes.\<close>

record validated =
  v_sender :: "account option"
  v_recipient :: "account option"
  v_amount :: jsnum
  v_currency :: string

text \<open>
  \<open>currencies\<close> are the codes of \<^verbatim>\<open>KNOWLEDGE.DEFINITIONS.CURRENCIES\<close>
  (knowledge\_base.js), a parameter of the model. An id is \<open>None\<close> for \<^verbatim>\<open>null\<close>
  (the sender of a mint) or \<^verbatim>\<open>undefined\<close>.
\<close>

definition validateAct ::
  "string list \<Rightarrow> string option \<Rightarrow> string option \<Rightarrow> jsnum \<Rightarrow> string \<Rightarrow> system_state \<Rightarrow> bool
     \<Rightarrow> error + validated" where
  "validateAct currencies senderId recipientId amount currency state isMint =
     (if isHalted state then Inl SystemHalted
      else if vib_value (vibration_level state) \<ge> VIBRATION_LIMIT then Inl VibrationExceeded
      else if jle amount (Fin 0) \<or> isNaN amount then Inl InvalidAmount
      else if \<not> list_ex (\<lambda>c. c = currency) currencies then Inl UnknownCurrency
      else
        (let sender = find (\<lambda>acc. Some (acc_id acc) = senderId) (accounts state);
             recipient = find (\<lambda>acc. Some (acc_id acc) = recipientId) (accounts state)
         in if \<not> isMint \<and> sender = None then Inl (SenderNotFound senderId)
            else if \<not> falsy recipientId \<and> recipient = None
              then Inl (RecipientNotFound recipientId)
            else if \<not> isMint \<and> jlt (toNumber (balances (the sender) currency)) amount
              then Inl (InsufficientBalance senderId currency)
            else Inr \<lparr>v_sender = sender, v_recipient = recipient,
                      v_amount = amount, v_currency = currency\<rparr>))"

definition actTransfer ::
  "string list \<Rightarrow> string option \<Rightarrow> string option \<Rightarrow> jsnum \<Rightarrow> string \<Rightarrow> world
     \<Rightarrow> error option \<times> world" where
  "actTransfer currencies senderId recipientId amount currency w =
     (let state = getCurrentState w
      in case validateAct currencies senderId recipientId amount currency state False of
           Inl e \<Rightarrow> (Some e, w)
         | Inr validation \<Rightarrow>
             (let newAccounts = map (\<lambda>acc.
                    if Some (acc_id acc) = senderId then
                      acc\<lparr>balances := (balances acc)
                        (currency \<mapsto> jsub (toNumber (balances acc currency)) (v_amount validation))\<rparr>
                    else if Some (acc_id acc) = recipientId then
                      acc\<lparr>balances := (balances acc)
                        (currency \<mapsto> jadd (orZero (balances acc currency)) (v_amount validation))\<rparr>
                    else acc) (accounts state)
              in (None, addVibration 2 (saveSystemState (P_accounts newAccounts) w))))"

definition actMintCurrency ::
  "string list \<Rightarrow> string option \<Rightarrow> jsnum \<Rightarrow> string \<Rightarrow> world \<Rightarrow> error option \<times> world" where
  "actMintCurrency currencies recipientId amount currency w =
     (let state = getCurrentState w
      in case validateAct currencies None recipientId amount currency state True of
           Inl e \<Rightarrow> (Some e, w)
         | Inr validation \<Rightarrow>
             (let newAccounts = map (\<lambda>acc.
                    if Some (acc_id acc) = recipientId then
                      acc\<lparr>balances := (balances acc)
                        (currency \<mapsto> jadd (orZero (balances acc currency)) (v_amount validation))\<rparr>
                    else acc) (accounts state)
              in (None, addVibration 3 (saveSystemState (P_accounts newAccounts) w))))"

text \<open>\<^verbatim>\<open>state.currency_rates[code]\<close> as a Number.\<close>

definition rate_of :: "system_state \<Rightarrow> string \<Rightarrow> jsnum" where
  "rate_of state code = toNumber (map_option Fin (currency_rates state code))"

text \<open>
  The source currency passes through \<open>validateAct\<close>; the target currency is only
  compared with the source currency, never with the configured codes, and is used as
  a property name of the account object as it is.
\<close>

definition actExchangeCurrency ::
  "string list \<Rightarrow> string option \<Rightarrow> jsnum \<Rightarrow> string \<Rightarrow> string \<Rightarrow> world
     \<Rightarrow> error option \<times> world" where
  "actExchangeCurrency currencies accountId amount fromCurrency toCurrency w =
     (let state = getCurrentState w
      in case validateAct currencies accountId accountId amount fromCurrency state False of
           Inl e \<Rightarrow> (Some e, w)
         | Inr validation \<Rightarrow>
             if fromCurrency = toCurrency then (Some SameCurrency, w)
             else
               (let rateFrom = rate_of state fromCurrency;
                    rateTo = rate_of state toCurrency;
                    rate = jdiv rateTo rateFrom;
                    receivedAmount = jmul amount rate;
                    newAccounts = map (\<lambda>acc.
                      if Some (acc_id acc) = accountId then
                        acc\<lparr>balances := (balances acc)
                          (fromCurrency \<mapsto>
                             jsub (toNumber (balances acc fromCurrency)) (v_amount validation),
                           toCurrency \<mapsto> jadd (orZero (balances acc toCurrency)) receivedAmount)\<rparr>
                      else acc) (accounts state)
                in (None, addVibration 1 (saveSystemState (P_accounts newAccounts) w))))"

text \<open>
  infra\_acts.js. \<open>amount\<close> is the parsed form field, \<open>now\<close> the value of
  \<^verbatim>\<open>Date.now()\<close>. The initial state has no \<^verbatim>\<open>infrastructure\<close> property; spreading
  \<^verbatim>\<open>undefined\<close> gives the empty object, the empty map here.
\<close>

definition actAdjustSupply :: "string \<Rightarrow> jsnum \<Rightarrow> int \<Rightarrow> world \<Rightarrow> error option \<times> world" where
  "actAdjustSupply infrastructureType amount now w =
     (if isNaN amount \<or> jlt amount (Fin 0) \<or> jlt (Fin 100) amount then (Some InvalidAmount, w)
      else
        (let state = getCurrentState w;
             targetKey = (if infrastructureType = ''ENERGY'' then ''energy_supply''
                          else ''net_stability'');
             newInfrastructureState =
               (infrastructure state)(targetKey \<mapsto> \<lparr>infra_value = amount, last_change = now\<rparr>);
             vibeCost = 1
         in (None, addVibration vibeCost
                     (saveSystemState (P_infrastructure newInfrastructureState) w))))"

section \<open>Reference data and observations\<close>

text \<open>
  The currency set is configuration supplied by knowledge\_base.js
  (\<^verbatim>\<open>KNOWLEDGE.DEFINITIONS.CURRENCIES\<close>), which is not among the sources, and the
  specification does not list its codes. The acts take the configured codes as a
  parameter, and the general statements below hold for every list of codes. Where an
  act is evaluated on a concrete input, the configuration of the example is this
  list: the three codes to which the initial state of core\_logic.js gives a rate and
  in which its accounts hold a balance. It is an input of the examples, not a value
  read from the program.
\<close>

definition CURRENCIES :: "string list" where
  "CURRENCIES = [''ALPHA'', ''BETA'', ''GAMMA'']"

text \<open>
  The initial \<^verbatim>\<open>currentState\<close> of core\_logic.js, \<open>t0\<close> being \<^verbatim>\<open>Date.now()\<close> at
  load time. The account names are given by their UTF-8 bytes.
\<close>

definition initial_state :: "int \<Rightarrow> system_state" where
  "initial_state t0 =
     \<lparr>isHalted = False,
      vibration_level = \<lparr>vib_value = 0, last_decay = t0\<rparr>,
      currency_rates = [''ALPHA'' \<mapsto> 1, ''BETA'' \<mapsto> 10, ''GAMMA'' \<mapsto> 100],
      accounts =
        [\<lparr>acc_id = ''CORE_BANK_A'',
          acc_name = map char_of
            [228, 184, 173, 229, 164, 174, 233, 138, 128, 232, 161, 140, 65 :: nat],
          balances = [''ALPHA'' \<mapsto> Fin 1000, ''BETA'' \<mapsto> Fin 500, ''GAMMA'' \<mapsto> Fin 100]\<rparr>,
         \<lparr>acc_id = ''USER_AUDIT_B'',
          acc_name = map char_of [231, 155, 163, 230, 159, 187, 232, 128, 133, 66 :: nat],
          balances = [''ALPHA'' \<mapsto> Fin 50, ''BETA'' \<mapsto> Fin 0, ''GAMMA'' \<mapsto> Fin 0]\<rparr>],
      infrastructure = Map.empty\<rparr>"

definition initial_world :: "int \<Rightarrow> world" where
  "initial_world t0 = \<lparr>currentState = initial_state t0, firestore = []\<rparr>"

text \<open>The value of the vibration gauge.\<close>

definition gauge :: "world \<Rightarrow> real" where
  "gauge w = vib_value (vibration_level (currentState w))"

text \<open>The three operations on the gauge, and a run of them in order.\<close>

datatype gauge_op = Add real | Decay int | Reset int

fun gauge_step :: "gauge_op \<Rightarrow> world \<Rightarrow> world" where
  "gauge_step (Add amount) w = addVibration amount w"
| "gauge_step (Decay now) w = decayVibration now w"
| "gauge_step (Reset now) w = resetVibration now w"

text \<open>An addition is a charge when its amount is not negative.\<close>

fun charge :: "gauge_op \<Rightarrow> bool" where
  "charge (Add amount) = (0 \<le> amount)"
| "charge _ = True"

definition in_range :: "world \<Rightarrow> bool" where
  "in_range w = (0 \<le> gauge w \<and> gauge w \<le> 2 * VIBRATION_LIMIT)"

text \<open>
  The account an id resolves to: the first account of the list with that id, as
  \<^verbatim>\<open>state.accounts.find(acc => acc.id === id)\<close> returns it.
\<close>

definition account_with :: "string option \<Rightarrow> system_state \<Rightarrow> account option" where
  "account_with i state = find (\<lambda>acc. Some (acc_id acc) = i) (accounts state)"

text \<open>
  The checks of the validation as the specification lists them, in its order, each
  with the condition under which it fails and the error it then gives; and the error
  of the first check of such a list that fails.
\<close>

definition validation_checks ::
  "string list \<Rightarrow> string option \<Rightarrow> string option \<Rightarrow> jsnum \<Rightarrow> string \<Rightarrow> system_state \<Rightarrow> bool
     \<Rightarrow> (bool \<times> error) list" where
  "validation_checks currencies senderId recipientId amount currency state isMint =
     [(isHalted state, SystemHalted),
      (vib_value (vibration_level state) \<ge> VIBRATION_LIMIT, VibrationExceeded),
      (jle amount (Fin 0) \<or> isNaN amount, InvalidAmount),
      (currency \<notin> set currencies, UnknownCurrency),
      (\<not> isMint \<and> account_with senderId state = None, SenderNotFound senderId),
      (\<not> falsy recipientId \<and> account_with recipientId state = None,
         RecipientNotFound recipientId),
      (\<not> isMint \<and>
         (case account_with senderId state of
            None \<Rightarrow> False
          | Some sender \<Rightarrow> jlt (toNumber (balances sender currency)) amount),
         InsufficientBalance senderId currency)]"

definition first_failure :: "(bool \<times> error) list \<Rightarrow> error option" where
  "first_failure checks = map_option snd (find fst checks)"

text \<open>
  The balance the account with id \<open>i\<close> holds in a currency: \<open>None\<close> when no account
  has the id or the account has no property of that code.
\<close>

definition balance_of :: "world \<Rightarrow> string \<Rightarrow> string \<Rightarrow> jsnum option" where
  "balance_of w i code =
     (case account_with (Some i) (currentState w) of
        None \<Rightarrow> None
      | Some acc \<Rightarrow> balances acc code)"

text \<open>
  A Number is negative when \<^verbatim>\<open>x < 0\<close> holds; NaN is not.
\<close>

definition negative :: "jsnum \<Rightarrow> bool" where
  "negative v = jlt v (Fin 0)"

text \<open>No account of the list holds a negative balance in any currency.\<close>

definition no_negative_balance :: "account list \<Rightarrow> bool" where
  "no_negative_balance accs =
     (\<forall>acc \<in> set accs. \<forall>code v. balances acc code = Some v \<longrightarrow> \<not> negative v)"

text \<open>
  The invariants the data model of the specification gives the state: account ids are
  unique and every rate is positive.
\<close>

definition well_formed :: "system_state \<Rightarrow> bool" where
  "well_formed state =
     (distinct (map acc_id (accounts state)) \<and>
      (\<forall>code r. currency_rates state code = Some r \<longrightarrow> 0 < r))"

text \<open>
  A well-formed state without a negative balance, and no negative balance in any
  account list handed to the document store.
\<close>

definition ledger_ok :: "world \<Rightarrow> bool" where
  "ledger_ok w =
     (well_formed (currentState w) \<and>
      no_negative_balance (accounts (currentState w)) \<and>
      (\<forall>accs. P_accounts accs \<in> set (firestore w) \<longrightarrow> no_negative_balance accs))"

text \<open>
  The four acts that write account balances, named with their form inputs, and the
  world each leaves behind.
\<close>

datatype ledger_act =
    Transfer "string option" "string option" jsnum string
  | Mint "string option" jsnum string
  | Exchange "string option" jsnum string string
  | CreateAccount "string option" "string option"

fun ledger_step :: "string list \<Rightarrow> ledger_act \<Rightarrow> world \<Rightarrow> world" where
  "ledger_step cs (Transfer senderId recipientId amount currency) w =
     snd (actTransfer cs senderId recipientId amount currency w)"
| "ledger_step cs (Mint recipientId amount currency) w =
     snd (actMintCurrency cs recipientId amount currency w)"
| "ledger_step cs (Exchange accountId amount fromCurrency toCurrency) w =
     snd (actExchangeCurrency cs accountId amount fromCurrency toCurrency w)"
| "ledger_step cs (CreateAccount newId newName) w =
     snd (handleCreateAccountAct newId newName w)"

text \<open>
  The total supply of a currency: the balances of all accounts added up from 0 in the
  arithmetic of Numbers, a missing balance counting as zero as on the credit side of
  the acts.
\<close>

definition total_supply :: "string \<Rightarrow> world \<Rightarrow> jsnum" where
  "total_supply code w =
     foldl jadd (Fin 0) (map (\<lambda>acc. orZero (balances acc code)) (accounts (currentState w)))"

text \<open>
  The balance of an account as a real number when it is a finite number, and the
  accounts of a list all holding a finite number in a currency.
\<close>

definition finite_balance :: "string \<Rightarrow> account \<Rightarrow> real" where
  "finite_balance code acc = (case balances acc code of Some (Fin x) \<Rightarrow> x | _ \<Rightarrow> 0)"

definition all_finite :: "string \<Rightarrow> account list \<Rightarrow> bool" where
  "all_finite code accs = list_all (\<lambda>acc. \<exists>x. balances acc code = Some (Fin x)) accs"

text \<open>
  An account is one object: besides its balances it has the properties \<^verbatim>\<open>id\<close> and
  \<^verbatim>\<open>name\<close>, which hold strings, and it inherits the properties of
  \<^verbatim>\<open>Object.prototype\<close>. A currency code is a balance key when it is none of these
  names; for balance keys the balances map of the model is what the code reads and
  writes under the code. The acts do not check this of a target currency, and
  statements about balances are made for balance keys only.
\<close>

definition non_balance_properties :: "string list" where
  "non_balance_properties =
     [''id'', ''name'', ''constructor'', ''__proto__'', ''hasOwnProperty'', ''isPrototypeOf'',
      ''propertyIsEnumerable'', ''toLocaleString'', ''toString'', ''valueOf'',
      ''__defineGetter__'', ''__defineSetter__'', ''__lookupGetter__'', ''__lookupSetter__'']"

definition balance_key :: "string \<Rightarrow> bool" where
  "balance_key code = (code \<notin> set non_balance_properties)"

text \<open>An act of the ledger whose currency arguments are balance keys.\<close>

fun plain_act :: "ledger_act \<Rightarrow> bool" where
  "plain_act (Transfer senderId recipientId amount currency) = balance_key currency"
| "plain_act (Mint recipientId amount currency) = balance_key currency"
| "plain_act (Exchange accountId amount fromCurrency toCurrency) =
     (balance_key fromCurrency \<and> balance_key toCurrency)"
| "plain_act (CreateAccount newId newName) = True"

text \<open>
  The state the code reaches from the initial state by creating the account
  \<^verbatim>\<open>CORE_BANK_ANaN\<close> and then exchanging 5 ALPHA of \<^verbatim>\<open>CORE_BANK_A\<close> into the
  target currency \<^verbatim>\<open>id\<close>. The target is not validated and has no rate, so the amount
  received is NaN, and the object written for the account is
  \<^verbatim>\<open>{...acc, ALPHA: 1000 - 5, id: ('CORE_BANK_A' || 0) + NaN}\<close>: its id becomes the
  string \<^verbatim>\<open>CORE_BANK_ANaN\<close>, the id of the account created before. Each act charged
  the gauge with 1. The patches written by the two acts are left out.
\<close>

definition renamed_world :: world where
  "renamed_world =
     \<lparr>currentState = (initial_state 0)
        \<lparr>vibration_level := \<lparr>vib_value = 2, last_decay = 0\<rparr>,
         accounts :=
           [\<lparr>acc_id = ''CORE_BANK_ANaN'',
             acc_name = acc_name (accounts (initial_state 0) ! 0),
             balances = [''ALPHA'' \<mapsto> Fin 995, ''BETA'' \<mapsto> Fin 500, ''GAMMA'' \<mapsto> Fin 100]\<rparr>,
            accounts (initial_state 0) ! 1,
            \<lparr>acc_id = ''CORE_BANK_ANaN'',
             acc_name = default_name_label @ ''CORE_BANK_ANaN'',
             balances = [''ALPHA'' \<mapsto> Fin 0, ''BETA'' \<mapsto> Fin 0, ''GAMMA'' \<mapsto> Fin 0]\<rparr>]\<rparr>,
      firestore = []\<rparr>"


section \<open>Properties of the state store and the gauge\<close>

lemma gauge_addVibration:
  "gauge (addVibration amount w) = min (gauge w + amount) (VIBRATION_LIMIT * 2)"
  by (simp add: gauge_def addVibration_def saveSystemState_def Let_def)

lemma gauge_resetVibration: "gauge (resetVibration now w) = 0"
  by (simp add: gauge_def resetVibration_def saveSystemState_def)

lemma gauge_decayVibration:
  "gauge (decayVibration now w) =
     (let elapsed = real_of_int (now - last_decay (vibration_level (currentState w))) / 1000
      in if elapsed \<ge> 1 then max 0 (gauge w - elapsed * 0.5) else gauge w)"
  by (simp add: gauge_def decayVibration_def saveSystemState_def Let_def)

lemma decayVibration_in_range:
  assumes "in_range w"
  shows "in_range (decayVibration now w)"
proof -
  define elapsed where
    "elapsed = real_of_int (now - last_decay (vibration_level (currentState w))) / 1000"
  show ?thesis
  proof (cases "elapsed \<ge> 1")
    case True
    then have "gauge (decayVibration now w) = max 0 (gauge w - elapsed * 0.5)"
      by (simp add: gauge_decayVibration elapsed_def)
    moreover have "0 \<le> elapsed * 0.5"
      using True by simp
    ultimately show ?thesis
      using assms by (simp add: in_range_def)
  next
    case False
    then have "gauge (decayVibration now w) = gauge w"
      by (simp add: gauge_decayVibration elapsed_def)
    then show ?thesis
      using assms by (simp add: in_range_def)
  qed
qed

lemma gauge_step_in_range:
  "in_range w \<Longrightarrow> charge op \<Longrightarrow> in_range (gauge_step op w)"
proof (cases op)
  case (Add amount)
  assume "in_range w" "charge op"
  with Add show ?thesis
    by (simp add: in_range_def gauge_addVibration VIBRATION_LIMIT_def)
next
  case (Decay now)
  assume "in_range w"
  with Decay show ?thesis
    by (simp add: decayVibration_in_range)
next
  case (Reset now)
  then show ?thesis
    by (simp add: in_range_def gauge_resetVibration VIBRATION_LIMIT_def)
qed

lemma fold_gauge_step_in_range:
  "in_range w \<Longrightarrow> list_all charge ops \<Longrightarrow> in_range (fold gauge_step ops w)"
  by (induction ops arbitrary: w) (simp_all add: gauge_step_in_range)

text \<open>
  C7, as amended. The gauge stays within \<open>[0, 2 * VIBRATION_LIMIT]\<close> under every
  sequence of additions, decays and resets that starts in that range, provided no
  addition has a negative amount: \<open>addVibration\<close> clamps from above only. An addition
  that would pass the ceiling sets the gauge to the ceiling exactly; a decay never
  takes a non-negative gauge below zero, and one that would pass zero sets the gauge
  to zero exactly.
\<close>

theorem gauge_stays_in_range:
  "(in_range w \<and> list_all charge ops \<longrightarrow> in_range (fold gauge_step ops w)) \<and>
   (gauge w + x > 2 * VIBRATION_LIMIT \<longrightarrow> gauge (addVibration x w) = 2 * VIBRATION_LIMIT) \<and>
   (0 \<le> gauge w \<longrightarrow> 0 \<le> gauge (decayVibration now w)) \<and>
   (let elapsed = real_of_int (now - last_decay (vibration_level (currentState w))) / 1000
    in elapsed \<ge> 1 \<and> gauge w - elapsed * 0.5 \<le> 0 \<longrightarrow> gauge (decayVibration now w) = 0)"
proof (intro conjI impI)
  assume "in_range w \<and> list_all charge ops"
  then show "in_range (fold gauge_step ops w)"
    by (simp add: fold_gauge_step_in_range)
next
  assume "gauge w + x > 2 * VIBRATION_LIMIT"
  then show "gauge (addVibration x w) = 2 * VIBRATION_LIMIT"
    by (simp add: gauge_addVibration)
next
  assume "0 \<le> gauge w"
  then show "0 \<le> gauge (decayVibration now w)"
    by (simp add: gauge_decayVibration Let_def)
next
  show "let elapsed = real_of_int (now - last_decay (vibration_level (currentState w))) / 1000
    in elapsed \<ge> 1 \<and> gauge w - elapsed * 0.5 \<le> 0 \<longrightarrow> gauge (decayVibration now w) = 0"
    by (simp add: gauge_decayVibration Let_def)
qed

theorem gauge_stays_in_range_witness:
  "in_range (initial_world 0) \<and>
   list_all charge [Add 150, Add 60, Decay 3000, Reset 4000, Add 5] \<and>
   in_range (fold gauge_step [Add 150, Add 60, Decay 3000, Reset 4000, Add 5] (initial_world 0)) \<and>
   gauge (addVibration 150 (initial_world 0)) + 60 > 2 * VIBRATION_LIMIT \<and>
   gauge (addVibration 60 (addVibration 150 (initial_world 0))) = 200 \<and>
   0 \<le> gauge (initial_world 0) \<and> gauge (decayVibration 3000 (initial_world 0)) = 0"
  using gauge_stays_in_range
          [of "initial_world 0" "[Add 150, Add 60, Decay 3000, Reset 4000, Add 5]" 0 0]
        gauge_stays_in_range [of "addVibration 150 (initial_world 0)" "[]" 60 0]
        gauge_stays_in_range [of "initial_world 0" "[]" 0 3000]
  by (simp add: in_range_def gauge_def initial_world_def initial_state_def addVibration_def
        decayVibration_def saveSystemState_def VIBRATION_LIMIT_def Let_def)

text \<open>
  C7 as stated fails: from the gauge value 0 of the initial state, the single
  operation \<^verbatim>\<open>addVibration(-1)\<close> leaves the gauge at \<open>-1\<close>, below the range.
\<close>

theorem gauge_negative_add_counterexample:
  "in_range (initial_world 0) \<and> \<not> in_range (fold gauge_step [Add (- 1)] (initial_world 0))"
  by (simp add: in_range_def gauge_def initial_world_def initial_state_def addVibration_def
        saveSystemState_def VIBRATION_LIMIT_def Let_def)



section \<open>Properties of the acts\<close>

text \<open>
  C6. Halting a halted system and restarting a running one change nothing: the world
  after the call is the world before it, so nothing is written and the gauge is not
  charged. Two halts in a row from a running system: the first succeeds, switches
  \<open>isHalted\<close> on and charges the gauge once with 5 (up to the ceiling); the second is
  refused and leaves the world of the first. The document store has received exactly
  the two patches of the first halt.
\<close>

theorem halt_restart_idempotent:
  "(isHalted (currentState w) \<longrightarrow> actForcedHalt w = (Some AlreadyHalted, w)) \<and>
   (\<not> isHalted (currentState w) \<longrightarrow> actRestart w = (Some AlreadyRunning, w)) \<and>
   (\<not> isHalted (currentState w) \<longrightarrow>
      (let r1 = actForcedHalt w; r2 = actForcedHalt (snd r1)
       in fst r1 = None \<and> fst r2 = Some AlreadyHalted \<and> snd r2 = snd r1 \<and>
          snd r1 = addVibration 5 (saveSystemState (P_isHalted True) w) \<and>
          isHalted (currentState (snd r2)) \<and>
          gauge (snd r2) = min (gauge w + 5) (2 * VIBRATION_LIMIT) \<and>
          firestore (snd r2) = firestore w @
            [P_isHalted True,
             P_vibration_level ((vibration_level (currentState w))
               \<lparr>vib_value := min (gauge w + 5) (2 * VIBRATION_LIMIT)\<rparr>)]))"
  by (simp add: actForcedHalt_def actRestart_def getCurrentState_def Let_def
      addVibration_def saveSystemState_def gauge_def VIBRATION_LIMIT_def)

theorem halt_restart_idempotent_witness:
  "\<not> isHalted (currentState (initial_world 0)) \<and>
   actRestart (initial_world 0) = (Some AlreadyRunning, initial_world 0) \<and>
   fst (actForcedHalt (initial_world 0)) = None \<and>
   isHalted (currentState (snd (actForcedHalt (initial_world 0)))) \<and>
   actForcedHalt (snd (actForcedHalt (initial_world 0))) =
     (Some AlreadyHalted, snd (actForcedHalt (initial_world 0))) \<and>
   gauge (snd (actForcedHalt (snd (actForcedHalt (initial_world 0))))) = 5 \<and>
   length (firestore (snd (actForcedHalt (snd (actForcedHalt (initial_world 0)))))) = 2"
  using halt_restart_idempotent [of "initial_world 0"]
        halt_restart_idempotent [of "snd (actForcedHalt (initial_world 0))"]
  by (simp add: Let_def gauge_def initial_world_def initial_state_def addVibration_def
        saveSystemState_def VIBRATION_LIMIT_def)

text \<open>
  C2. Whenever one of the six acts (halt, restart, create-account, transfer, mint,
  exchange) is refused, the world after the call is the world before it: the local
  state, the gauge in it, and the sequence of patches written to the document store.
\<close>

theorem failed_acts_change_nothing:
  "(fst (actForcedHalt w) \<noteq> None \<longrightarrow> snd (actForcedHalt w) = w) \<and>
   (fst (actRestart w) \<noteq> None \<longrightarrow> snd (actRestart w) = w) \<and>
   (fst (handleCreateAccountAct newId newName w) \<noteq> None \<longrightarrow>
      snd (handleCreateAccountAct newId newName w) = w) \<and>
   (fst (actTransfer cs senderId recipientId amount currency w) \<noteq> None \<longrightarrow>
      snd (actTransfer cs senderId recipientId amount currency w) = w) \<and>
   (fst (actMintCurrency cs recipientId amount currency w) \<noteq> None \<longrightarrow>
      snd (actMintCurrency cs recipientId amount currency w) = w) \<and>
   (fst (actExchangeCurrency cs accountId amount fromCurrency toCurrency w) \<noteq> None \<longrightarrow>
      snd (actExchangeCurrency cs accountId amount fromCurrency toCurrency w) = w)"
  by (simp add: actForcedHalt_def actRestart_def handleCreateAccountAct_def actTransfer_def
      actMintCurrency_def actExchangeCurrency_def Let_def split: sum.split)

theorem failed_acts_change_nothing_witness:
  "actForcedHalt (initial_world 0\<lparr>currentState := (initial_state 0)\<lparr>isHalted := True\<rparr>\<rparr>) =
     (Some AlreadyHalted, initial_world 0\<lparr>currentState := (initial_state 0)\<lparr>isHalted := True\<rparr>\<rparr>) \<and>
   actRestart (initial_world 0) = (Some AlreadyRunning, initial_world 0) \<and>
   handleCreateAccountAct (Some ''CORE_BANK_A'') None (initial_world 0) =
     (Some InvalidOrDuplicateId, initial_world 0) \<and>
   actTransfer CURRENCIES (Some ''CORE_BANK_A'') (Some ''USER_AUDIT_B'') (Fin 2000) ''ALPHA''
       (initial_world 0) =
     (Some (InsufficientBalance (Some ''CORE_BANK_A'') ''ALPHA''), initial_world 0) \<and>
   actMintCurrency CURRENCIES (Some ''CORE_BANK_A'') NaN ''ALPHA'' (initial_world 0) =
     (Some InvalidAmount, initial_world 0) \<and>
   actExchangeCurrency CURRENCIES (Some ''CORE_BANK_A'') (Fin 5) ''ALPHA'' ''ALPHA''
       (initial_world 0) =
     (Some SameCurrency, initial_world 0)"
proof -
  have "fst (actForcedHalt (initial_world 0\<lparr>currentState := (initial_state 0)\<lparr>isHalted := True\<rparr>\<rparr>))
          = Some AlreadyHalted"
    by (simp add: actForcedHalt_def getCurrentState_def)
  moreover have "fst (actRestart (initial_world 0)) = Some AlreadyRunning"
    by (simp add: actRestart_def getCurrentState_def initial_world_def initial_state_def)
  moreover have "fst (handleCreateAccountAct (Some ''CORE_BANK_A'') None (initial_world 0))
          = Some InvalidOrDuplicateId"
    by (simp add: handleCreateAccountAct_def getCurrentState_def initial_world_def
          initial_state_def)
  moreover have "fst (actTransfer CURRENCIES (Some ''CORE_BANK_A'') (Some ''USER_AUDIT_B'')
            (Fin 2000) ''ALPHA'' (initial_world 0))
          = Some (InsufficientBalance (Some ''CORE_BANK_A'') ''ALPHA'')"
    by (simp add: actTransfer_def validateAct_def getCurrentState_def initial_world_def
          initial_state_def CURRENCIES_def VIBRATION_LIMIT_def jle_def Let_def)
  moreover have "fst (actMintCurrency CURRENCIES (Some ''CORE_BANK_A'') NaN ''ALPHA''
            (initial_world 0)) = Some InvalidAmount"
    by (simp add: actMintCurrency_def validateAct_def getCurrentState_def initial_world_def
          initial_state_def CURRENCIES_def VIBRATION_LIMIT_def jle_def Let_def)
  moreover have "fst (actExchangeCurrency CURRENCIES (Some ''CORE_BANK_A'') (Fin 5) ''ALPHA''
            ''ALPHA'' (initial_world 0)) = Some SameCurrency"
    by (simp add: actExchangeCurrency_def validateAct_def getCurrentState_def initial_world_def
          initial_state_def CURRENCIES_def VIBRATION_LIMIT_def jle_def Let_def)
  ultimately show ?thesis
    using failed_acts_change_nothing
            [where w = "initial_world 0\<lparr>currentState := (initial_state 0)\<lparr>isHalted := True\<rparr>\<rparr>"]
          failed_acts_change_nothing
            [where w = "initial_world 0" and newId = "Some ''CORE_BANK_A''" and newName = None
               and cs = CURRENCIES and senderId = "Some ''CORE_BANK_A''"
               and recipientId = "Some ''USER_AUDIT_B''" and amount = "Fin 2000"
               and currency = "''ALPHA''"]
          failed_acts_change_nothing
            [where w = "initial_world 0" and cs = CURRENCIES
               and recipientId = "Some ''CORE_BANK_A''" and amount = NaN
               and currency = "''ALPHA''"]
          failed_acts_change_nothing
            [where w = "initial_world 0" and cs = CURRENCIES
               and accountId = "Some ''CORE_BANK_A''" and amount = "Fin 5"
               and fromCurrency = "''ALPHA''" and toCurrency = "''ALPHA''"]
    by (simp add: prod_eq_iff)
qed

lemma find_first_failing:
  "list_all (\<lambda>c. \<not> P c) bs \<Longrightarrow> P x \<Longrightarrow> find P (bs @ x # cs) = Some x"
  by (induction bs) simp_all

text \<open>
  C3. \<open>validateAct\<close> returns the error of the first failing check in the order
  (1) halted, (2) gauge at or above \<open>VIBRATION_LIMIT\<close>, (3) amount not positive or not
  a number, (4) currency not configured, (5) sender missing unless minting,
  (6) recipient id given but recipient missing, (7) sender's balance below the amount
  unless minting; and the resolved accounts with the amount and the currency when no
  check fails. Whatever else fails, a failing check that every earlier check passed
  decides the error. The function has no access to the store: it takes the state and
  returns a result.
\<close>

theorem validateAct_first_failure:
  "(let checks = validation_checks currencies senderId recipientId amount currency state isMint;
        result = validateAct currencies senderId recipientId amount currency state isMint
    in result =
         (case first_failure checks of
            Some e \<Rightarrow> Inl e
          | None \<Rightarrow> Inr \<lparr>v_sender = account_with senderId state,
                         v_recipient = account_with recipientId state,
                         v_amount = amount, v_currency = currency\<rparr>) \<and>
       map snd checks =
         [SystemHalted, VibrationExceeded, InvalidAmount, UnknownCurrency,
          SenderNotFound senderId, RecipientNotFound recipientId,
          InsufficientBalance senderId currency] \<and>
       (\<forall>passed e later.
          checks = passed @ (True, e) # later \<and> list_all (\<lambda>c. \<not> fst c) passed
            \<longrightarrow> result = Inl e))"
proof -
  have eq: "validateAct currencies senderId recipientId amount currency state isMint =
     (case first_failure
             (validation_checks currencies senderId recipientId amount currency state isMint) of
        Some e \<Rightarrow> Inl e
      | None \<Rightarrow> Inr \<lparr>v_sender = account_with senderId state,
                     v_recipient = account_with recipientId state,
                     v_amount = amount, v_currency = currency\<rparr>)"
    by (auto simp: validateAct_def validation_checks_def first_failure_def account_with_def
          Let_def list_ex_iff)
  have order: "map snd
      (validation_checks currencies senderId recipientId amount currency state isMint) =
         [SystemHalted, VibrationExceeded, InvalidAmount, UnknownCurrency,
          SenderNotFound senderId, RecipientNotFound recipientId,
          InsufficientBalance senderId currency]"
    by (simp add: validation_checks_def)
  have first: "first_failure (passed @ (True, e) # later) = Some e"
    if "list_all (\<lambda>c. \<not> fst c) passed" for passed e later
    using that by (simp add: first_failure_def find_first_failing)
  show ?thesis
    unfolding Let_def
    using eq order first by (metis option.simps(5))
qed

theorem validateAct_first_failure_witness:
  "validateAct CURRENCIES (Some ''X'') (Some ''Y'') NaN ''ZZ''
     ((initial_state 0)\<lparr>isHalted := True, vibration_level := \<lparr>vib_value = 150, last_decay = 0\<rparr>\<rparr>)
     False = Inl SystemHalted \<and>
   validateAct CURRENCIES (Some ''X'') (Some ''Y'') NaN ''ZZ''
     ((initial_state 0)\<lparr>vibration_level := \<lparr>vib_value = 150, last_decay = 0\<rparr>\<rparr>)
     False = Inl VibrationExceeded \<and>
   validateAct CURRENCIES (Some ''X'') (Some ''Y'') NaN ''ZZ'' (initial_state 0) False
     = Inl InvalidAmount \<and>
   validateAct CURRENCIES (Some ''X'') (Some ''Y'') (Fin 2000) ''ZZ'' (initial_state 0) False
     = Inl UnknownCurrency \<and>
   validateAct CURRENCIES (Some ''X'') (Some ''Y'') (Fin 2000) ''ALPHA'' (initial_state 0) False
     = Inl (SenderNotFound (Some ''X'')) \<and>
   validateAct CURRENCIES (Some ''CORE_BANK_A'') (Some ''Y'') (Fin 2000) ''ALPHA''
     (initial_state 0) False = Inl (RecipientNotFound (Some ''Y'')) \<and>
   validateAct CURRENCIES (Some ''CORE_BANK_A'') (Some ''USER_AUDIT_B'') (Fin 2000) ''ALPHA''
     (initial_state 0) False = Inl (InsufficientBalance (Some ''CORE_BANK_A'') ''ALPHA'')"
proof -
  let ?halted = "(initial_state 0)
    \<lparr>isHalted := True, vibration_level := \<lparr>vib_value = 150, last_decay = 0\<rparr>\<rparr>"
  let ?loud = "(initial_state 0)\<lparr>vibration_level := \<lparr>vib_value = 150, last_decay = 0\<rparr>\<rparr>"
  have c1: "validation_checks CURRENCIES (Some ''X'') (Some ''Y'') NaN ''ZZ'' ?halted False =
      [] @ (True, SystemHalted) #
      [(True, VibrationExceeded), (True, InvalidAmount), (True, UnknownCurrency),
       (True, SenderNotFound (Some ''X'')), (True, RecipientNotFound (Some ''Y'')),
       (False, InsufficientBalance (Some ''X'') ''ZZ'')]"
    by (simp add: validation_checks_def account_with_def initial_state_def CURRENCIES_def
          VIBRATION_LIMIT_def jle_def)
  have c2: "validation_checks CURRENCIES (Some ''X'') (Some ''Y'') NaN ''ZZ'' ?loud False =
      [(False, SystemHalted)] @ (True, VibrationExceeded) #
      [(True, InvalidAmount), (True, UnknownCurrency),
       (True, SenderNotFound (Some ''X'')), (True, RecipientNotFound (Some ''Y'')),
       (False, InsufficientBalance (Some ''X'') ''ZZ'')]"
    by (simp add: validation_checks_def account_with_def initial_state_def CURRENCIES_def
          VIBRATION_LIMIT_def jle_def)
  have c3: "validation_checks CURRENCIES (Some ''X'') (Some ''Y'') NaN ''ZZ'' (initial_state 0)
        False =
      [(False, SystemHalted), (False, VibrationExceeded)] @ (True, InvalidAmount) #
      [(True, UnknownCurrency),
       (True, SenderNotFound (Some ''X'')), (True, RecipientNotFound (Some ''Y'')),
       (False, InsufficientBalance (Some ''X'') ''ZZ'')]"
    by (simp add: validation_checks_def account_with_def initial_state_def CURRENCIES_def
          VIBRATION_LIMIT_def jle_def)
  have c4: "validation_checks CURRENCIES (Some ''X'') (Some ''Y'') (Fin 2000) ''ZZ''
        (initial_state 0) False =
      [(False, SystemHalted), (False, VibrationExceeded), (False, InvalidAmount)] @
      (True, UnknownCurrency) #
      [(True, SenderNotFound (Some ''X'')), (True, RecipientNotFound (Some ''Y'')),
       (False, InsufficientBalance (Some ''X'') ''ZZ'')]"
    by (simp add: validation_checks_def account_with_def initial_state_def CURRENCIES_def
          VIBRATION_LIMIT_def jle_def)
  have c5: "validation_checks CURRENCIES (Some ''X'') (Some ''Y'') (Fin 2000) ''ALPHA''
        (initial_state 0) False =
      [(False, SystemHalted), (False, VibrationExceeded), (False, InvalidAmount),
       (False, UnknownCurrency)] @
      (True, SenderNotFound (Some ''X'')) #
      [(True, RecipientNotFound (Some ''Y'')),
       (False, InsufficientBalance (Some ''X'') ''ALPHA'')]"
    by (simp add: validation_checks_def account_with_def initial_state_def CURRENCIES_def
          VIBRATION_LIMIT_def jle_def)
  have c6: "validation_checks CURRENCIES (Some ''CORE_BANK_A'') (Some ''Y'') (Fin 2000) ''ALPHA''
        (initial_state 0) False =
      [(False, SystemHalted), (False, VibrationExceeded), (False, InvalidAmount),
       (False, UnknownCurrency), (False, SenderNotFound (Some ''CORE_BANK_A''))] @
      (True, RecipientNotFound (Some ''Y'')) #
      [(True, InsufficientBalance (Some ''CORE_BANK_A'') ''ALPHA'')]"
    by (simp add: validation_checks_def account_with_def initial_state_def CURRENCIES_def
          VIBRATION_LIMIT_def jle_def)
  have c7: "validation_checks CURRENCIES (Some ''CORE_BANK_A'') (Some ''USER_AUDIT_B'')
        (Fin 2000) ''ALPHA'' (initial_state 0) False =
      [(False, SystemHalted), (False, VibrationExceeded), (False, InvalidAmount),
       (False, UnknownCurrency), (False, SenderNotFound (Some ''CORE_BANK_A'')),
       (False, RecipientNotFound (Some ''USER_AUDIT_B''))] @
      (True, InsufficientBalance (Some ''CORE_BANK_A'') ''ALPHA'') # []"
    by (simp add: validation_checks_def account_with_def initial_state_def CURRENCIES_def
          VIBRATION_LIMIT_def jle_def)
  note earliest = validateAct_first_failure [unfolded Let_def, THEN conjunct2, THEN conjunct2,
      rule_format, OF conjI]
  show ?thesis
    using earliest [OF c1] earliest [OF c2] earliest [OF c3] earliest [OF c4] earliest [OF c5]
      earliest [OF c6] earliest [OF c7]
    by simp
qed

text \<open>
  C10. \<open>actAdjustSupply\<close> is carried out exactly when the amount is a number from 0
  to 100, and refused as an invalid amount, with the world unchanged, exactly when the
  amount is not a number, below 0 or above 100. Nothing else is read: carried out, it
  replaces the entry of the targeted infrastructure key, charges the gauge with 1 (up
  to the ceiling) and writes both patches, whether or not the system is halted and
  whatever the gauge shows.
\<close>

theorem adjust_supply_gated_by_amount_only:
  "(let r = actAdjustSupply infrastructureType amount now w;
        targetKey = (if infrastructureType = ''ENERGY'' then ''energy_supply''
                     else ''net_stability'');
        entry = \<lparr>infra_value = amount, last_change = now\<rparr>;
        level = (vibration_level (currentState w))
                  \<lparr>vib_value := min (gauge w + 1) (VIBRATION_LIMIT * 2)\<rparr>
    in (fst r = None \<longleftrightarrow> (\<exists>a. amount = Fin a \<and> 0 \<le> a \<and> a \<le> 100)) \<and>
       (fst r \<noteq> None \<longleftrightarrow> isNaN amount \<or> jlt amount (Fin 0) \<or> jlt (Fin 100) amount) \<and>
       (fst r \<noteq> None \<longrightarrow> r = (Some InvalidAmount, w)) \<and>
       (fst r = None \<longrightarrow>
          infrastructure (currentState (snd r)) =
            (infrastructure (currentState w))(targetKey \<mapsto> entry) \<and>
          vibration_level (currentState (snd r)) = level \<and>
          isHalted (currentState (snd r)) = isHalted (currentState w) \<and>
          accounts (currentState (snd r)) = accounts (currentState w) \<and>
          currency_rates (currentState (snd r)) = currency_rates (currentState w) \<and>
          firestore (snd r) = firestore w @
            [P_infrastructure ((infrastructure (currentState w))(targetKey \<mapsto> entry)),
             P_vibration_level level]))"
  by (cases amount)
     (simp_all add: actAdjustSupply_def getCurrentState_def Let_def addVibration_def
        saveSystemState_def gauge_def)

theorem adjust_supply_gated_by_amount_only_witness:
  "isHalted (currentState (initial_world 0\<lparr>currentState := (initial_state 0)
      \<lparr>isHalted := True, vibration_level := \<lparr>vib_value = 150, last_decay = 0\<rparr>\<rparr>\<rparr>)) \<and>
   gauge (initial_world 0\<lparr>currentState := (initial_state 0)
      \<lparr>isHalted := True, vibration_level := \<lparr>vib_value = 150, last_decay = 0\<rparr>\<rparr>\<rparr>)
     \<ge> VIBRATION_LIMIT \<and>
   fst (actAdjustSupply ''ENERGY'' (Fin 40) 7 (initial_world 0\<lparr>currentState := (initial_state 0)
      \<lparr>isHalted := True, vibration_level := \<lparr>vib_value = 150, last_decay = 0\<rparr>\<rparr>\<rparr>)) = None \<and>
   infrastructure (currentState (snd (actAdjustSupply ''ENERGY'' (Fin 40) 7
      (initial_world 0\<lparr>currentState := (initial_state 0)
        \<lparr>isHalted := True, vibration_level := \<lparr>vib_value = 150, last_decay = 0\<rparr>\<rparr>\<rparr>))))
      ''energy_supply'' = Some \<lparr>infra_value = Fin 40, last_change = 7\<rparr> \<and>
   gauge (snd (actAdjustSupply ''ENERGY'' (Fin 40) 7
      (initial_world 0\<lparr>currentState := (initial_state 0)
        \<lparr>isHalted := True, vibration_level := \<lparr>vib_value = 150, last_decay = 0\<rparr>\<rparr>\<rparr>))) = 151 \<and>
   actAdjustSupply ''NET'' (Fin 101) 7 (initial_world 0) = (Some InvalidAmount, initial_world 0) \<and>
   actAdjustSupply ''NET'' NaN 7 (initial_world 0) = (Some InvalidAmount, initial_world 0)"
  using adjust_supply_gated_by_amount_only [where infrastructureType = "''ENERGY''"
          and amount = "Fin 40" and now = 7
          and w = "initial_world 0\<lparr>currentState := (initial_state 0)
            \<lparr>isHalted := True, vibration_level := \<lparr>vib_value = 150, last_decay = 0\<rparr>\<rparr>\<rparr>"]
        adjust_supply_gated_by_amount_only [where infrastructureType = "''NET''"
          and amount = "Fin 101" and now = 7 and w = "initial_world 0"]
        adjust_supply_gated_by_amount_only [where infrastructureType = "''NET''"
          and amount = NaN and now = 7 and w = "initial_world 0"]
  by (simp add: Let_def gauge_def VIBRATION_LIMIT_def)

section \<open>Properties of the rounding\<close>

lemma round_half_even_of_int: "round_half_even (of_int n) = n"
  by (simp add: round_half_even_def)

lemma round_half_even_nonneg: "0 \<le> q \<Longrightarrow> 0 \<le> round_half_even q"
  by (auto simp: round_half_even_def Let_def)

text \<open>A real number that is a multiple of its unit in the last place is not changed.\<close>

lemma round64_exact:
  assumes x: "x = of_int m * 2 powi k" and e: "ulp_exponent x \<le> k" and small: "\<bar>x\<bar> < 2 ^ 1024"
  shows "round64 x = Fin x"
proof (cases "x = 0")
  case True
  then show ?thesis by (simp add: round64_def)
next
  case False
  define e where "e = ulp_exponent x"
  have ek: "e \<le> k" using assms(2) e_def by simp
  have "x / 2 powi e = of_int m * (2 powi k / 2 powi e)"
    by (simp add: x)
  also have "2 powi k / 2 powi e = (2::real) powi (k - e)"
    by (simp add: power_int_diff)
  also have "(2::real) powi (k - e) = of_int (2 ^ nat (k - e))"
    using ek by (simp add: power_int_def)
  finally have q: "x / 2 powi e = of_int (m * 2 ^ nat (k - e))"
    by simp
  have "of_int (round_half_even (x / 2 powi e)) * 2 powi e = x / 2 powi e * 2 powi e"
    unfolding q round_half_even_of_int by simp
  also have "\<dots> = x"
    by simp
  finally have r: "of_int (round_half_even (x / 2 powi e)) * 2 powi e = x" .
  show ?thesis
    using False small r by (simp add: round64_def Let_def e_def [symmetric])
qed

lemma ulp_exponent_small:
  assumes "x \<noteq> 0" and "\<bar>x\<bar> < 2 ^ 53"
  shows "ulp_exponent x \<le> 0"
proof -
  have "log 2 \<bar>x\<bar> < 53"
    using assms by (simp add: log_less_iff)
  then have "\<lfloor>log 2 \<bar>x\<bar>\<rfloor> \<le> 52"
    by linarith
  then show ?thesis
    by (simp add: ulp_exponent_def)
qed

text \<open>Integers below \<open>2 ^ 53\<close> in absolute value are binary64 values.\<close>

lemma round64_of_int:
  assumes "\<bar>n\<bar> < 2 ^ 53"
  shows "round64 (of_int n) = Fin (of_int n)"
proof (cases "n = 0")
  case True
  then show ?thesis by (simp add: round64_def)
next
  case False
  have small: "\<bar>real_of_int n\<bar> < 2 ^ 53"
    using assms by (metis of_int_abs of_int_less_numeral_power_cancel_iff)
  show ?thesis
  proof (rule round64_exact [where m = n and k = 0])
    show "real_of_int n = of_int n * 2 powi 0" by simp
    show "ulp_exponent (real_of_int n) \<le> 0"
      using False small by (intro ulp_exponent_small) simp_all
    show "\<bar>real_of_int n\<bar> < 2 ^ 1024"
      using small by (rule less_trans) simp
  qed
qed

lemma round64_numeral:
  "(numeral k :: int) < 2 ^ 53 \<Longrightarrow> round64 (numeral k) = Fin (numeral k)"
  using round64_of_int [of "numeral k"] by simp

lemma round64_neg_numeral:
  "(numeral k :: int) < 2 ^ 53 \<Longrightarrow> round64 (- numeral k) = Fin (- numeral k)"
  using round64_of_int [of "- numeral k"] by simp

lemma round64_0: "round64 0 = Fin 0"
  by (simp add: round64_def)



text \<open>Rounding keeps the sign: a result that is not negative rounds to no negative Number.\<close>

lemma round64_not_negative:
  assumes "0 \<le> x"
  shows "\<not> negative (round64 x)"
proof (cases "x = 0")
  case True
  then show ?thesis by (simp add: round64_def negative_def)
next
  case False
  then have "0 < x" using assms by simp
  then have "0 \<le> x / 2 powi ulp_exponent x"
    by (simp add: zero_le_divide_iff)
  then have "0 \<le> round_half_even (x / 2 powi ulp_exponent x)"
    by (rule round_half_even_nonneg)
  then have "0 \<le> of_int (round_half_even (x / 2 powi ulp_exponent x))
      * (2::real) powi ulp_exponent x"
    by simp
  then show ?thesis
    using \<open>0 < x\<close> by (auto simp: round64_def Let_def negative_def)
qed


section \<open>Properties of the balances\<close>

subsection \<open>Accounts after an act\<close>

lemma accounts_saved:
  "accounts (currentState (addVibration k (saveSystemState (P_accounts as) w))) = as"
  by (simp add: addVibration_def saveSystemState_def Let_def)

lemma find_map_same_id:
  assumes "\<And>a. acc_id (f a) = acc_id a"
  shows "find (\<lambda>acc. Some (acc_id acc) = i) (map f xs) =
         map_option f (find (\<lambda>acc. Some (acc_id acc) = i) xs)"
  by (induction xs) (simp_all add: assms)

lemma find_has_id:
  "find (\<lambda>acc. Some (acc_id acc) = i) xs = Some a \<Longrightarrow> Some (acc_id a) = i"
  by (induction xs) (auto split: if_splits)

lemma validateAct_Inr:
  assumes "validateAct cs s r a c st m = Inr v"
  shows "v_amount v = a" and "\<not> jle a (Fin 0)" and "\<not> isNaN a" and "\<not> isHalted st"
    and "c \<in> set cs"
    and "\<not> m \<Longrightarrow> \<exists>acc. account_with s st = Some acc \<and> \<not> jlt (toNumber (balances acc c)) a"
    and "\<not> falsy r \<Longrightarrow> \<exists>acc. account_with r st = Some acc"
  using assms
  by (auto simp: validateAct_def Let_def account_with_def list_ex_iff split: if_splits)

lemma positive_amount_within:
  "\<not> jle a (Fin 0) \<Longrightarrow> \<not> isNaN a \<Longrightarrow> \<not> jlt (Fin b) a \<Longrightarrow> \<exists>m. a = Fin m \<and> 0 < m \<and> m \<le> b"
  by (cases a) (auto simp: jle_def)




lemma jsub_Fin: "jsub (Fin a) (Fin b) = round64 (a - b)"
  by (simp add: jsub_def)


subsection \<open>New accounts\<close>

text \<open>
  C9, as amended. \<open>handleCreateAccountAct\<close> is refused, with the world unchanged, when
  the id is empty or missing, when an account already has the id, and when the system
  is halted. Otherwise it appends exactly one account to the list: the account has the
  given id, the given name (or the default label followed by the id), and exactly the
  three balances ALPHA, BETA and GAMMA, each zero, which the act writes itself
  without reading the configured currency set; the gauge is charged with 1 (up to the
  ceiling), nothing else of the state changes, and the two patches are written.
\<close>

theorem create_account_outcomes:
  "(let r = handleCreateAccountAct newId newName w;
        state = currentState w;
        taken = (\<exists>acc \<in> set (accounts state). Some (acc_id acc) = newId)
    in (falsy newId \<or> taken \<longrightarrow> r = (Some InvalidOrDuplicateId, w)) \<and>
       (\<not> falsy newId \<and> \<not> taken \<and> isHalted state \<longrightarrow> r = (Some SystemHalted, w)) \<and>
       (\<not> falsy newId \<and> \<not> taken \<and> \<not> isHalted state \<longrightarrow>
          fst r = None \<and>
          (\<exists>acc. accounts (currentState (snd r)) = accounts state @ [acc] \<and>
                 Some (acc_id acc) = newId \<and>
                 acc_name acc =
                   (if falsy newName then default_name_label @ the newId else the newName) \<and>
                 balances acc = [''ALPHA'' \<mapsto> Fin 0, ''BETA'' \<mapsto> Fin 0, ''GAMMA'' \<mapsto> Fin 0] \<and>
                 firestore (snd r) = firestore w @
                   [P_accounts (accounts state @ [acc]),
                    P_vibration_level ((vibration_level state)
                      \<lparr>vib_value := min (gauge w + 1) (VIBRATION_LIMIT * 2)\<rparr>)]) \<and>
          gauge (snd r) = min (gauge w + 1) (VIBRATION_LIMIT * 2) \<and>
          isHalted (currentState (snd r)) = isHalted state \<and>
          currency_rates (currentState (snd r)) = currency_rates state \<and>
          infrastructure (currentState (snd r)) = infrastructure state))"
  by (cases newId)
     (auto simp: handleCreateAccountAct_def getCurrentState_def Let_def list_ex_iff
        addVibration_def saveSystemState_def gauge_def)

theorem create_account_outcomes_witness:
  "handleCreateAccountAct (Some []) None (initial_world 0) =
     (Some InvalidOrDuplicateId, initial_world 0) \<and>
   handleCreateAccountAct (Some ''CORE_BANK_A'') None (initial_world 0) =
     (Some InvalidOrDuplicateId, initial_world 0) \<and>
   handleCreateAccountAct (Some ''NEW_C'') None
       (initial_world 0\<lparr>currentState := (initial_state 0)\<lparr>isHalted := True\<rparr>\<rparr>) =
     (Some SystemHalted, initial_world 0\<lparr>currentState := (initial_state 0)\<lparr>isHalted := True\<rparr>\<rparr>) \<and>
   fst (handleCreateAccountAct (Some ''NEW_C'') None (initial_world 0)) = None \<and>
   map acc_id (accounts (currentState
      (snd (handleCreateAccountAct (Some ''NEW_C'') None (initial_world 0))))) =
     [''CORE_BANK_A'', ''USER_AUDIT_B'', ''NEW_C''] \<and>
   map (balance_of (snd (handleCreateAccountAct (Some ''NEW_C'') None (initial_world 0)))
          ''NEW_C'') [''ALPHA'', ''BETA'', ''GAMMA''] = [Some (Fin 0), Some (Fin 0), Some (Fin 0)] \<and>
   gauge (snd (handleCreateAccountAct (Some ''NEW_C'') None (initial_world 0))) = 1"
proof -
  let ?halted = "initial_world 0\<lparr>currentState := (initial_state 0)\<lparr>isHalted := True\<rparr>\<rparr>"
  note c = create_account_outcomes [unfolded Let_def]
  have free: "\<not> (\<exists>acc \<in> set (accounts (currentState (initial_world 0))).
                   Some (acc_id acc) = Some ''NEW_C'')"
    by (simp add: initial_world_def initial_state_def)
  have free': "\<not> (\<exists>acc \<in> set (accounts (currentState ?halted)).
                   Some (acc_id acc) = Some ''NEW_C'')"
    by (simp add: initial_world_def initial_state_def)
  have taken: "\<exists>acc \<in> set (accounts (currentState (initial_world 0))).
                   Some (acc_id acc) = Some ''CORE_BANK_A''"
    by (simp add: initial_world_def initial_state_def)
  have 1: "handleCreateAccountAct (Some []) None (initial_world 0) =
     (Some InvalidOrDuplicateId, initial_world 0)"
    using c [where newId = "Some []" and newName = None and w = "initial_world 0",
        THEN conjunct1] by simp
  have 2: "handleCreateAccountAct (Some ''CORE_BANK_A'') None (initial_world 0) =
     (Some InvalidOrDuplicateId, initial_world 0)"
    using c [where newId = "Some ''CORE_BANK_A''" and newName = None and w = "initial_world 0",
        THEN conjunct1] taken by blast
  have 3: "handleCreateAccountAct (Some ''NEW_C'') None ?halted = (Some SystemHalted, ?halted)"
    using c [where newId = "Some ''NEW_C''" and newName = None and w = ?halted,
        THEN conjunct2, THEN conjunct1] free' by simp
  have 4: "fst (handleCreateAccountAct (Some ''NEW_C'') None (initial_world 0)) = None \<and>
     gauge (snd (handleCreateAccountAct (Some ''NEW_C'') None (initial_world 0))) = 1 \<and>
     (\<exists>acc. accounts (currentState
          (snd (handleCreateAccountAct (Some ''NEW_C'') None (initial_world 0)))) =
          accounts (currentState (initial_world 0)) @ [acc] \<and>
        Some (acc_id acc) = Some ''NEW_C'' \<and>
        balances acc = [''ALPHA'' \<mapsto> Fin 0, ''BETA'' \<mapsto> Fin 0, ''GAMMA'' \<mapsto> Fin 0])"
    using c [where newId = "Some ''NEW_C''" and newName = None and w = "initial_world 0",
        THEN conjunct2, THEN conjunct2] free
    by (auto simp: initial_world_def initial_state_def gauge_def VIBRATION_LIMIT_def)
  then obtain acc where acc:
      "accounts (currentState
          (snd (handleCreateAccountAct (Some ''NEW_C'') None (initial_world 0)))) =
          accounts (currentState (initial_world 0)) @ [acc]"
      "acc_id acc = ''NEW_C''"
      "balances acc = [''ALPHA'' \<mapsto> Fin 0, ''BETA'' \<mapsto> Fin 0, ''GAMMA'' \<mapsto> Fin 0]"
    by auto
  have 5: "map acc_id (accounts (currentState
      (snd (handleCreateAccountAct (Some ''NEW_C'') None (initial_world 0))))) =
     [''CORE_BANK_A'', ''USER_AUDIT_B'', ''NEW_C'']"
    using acc(1,2) by (simp add: initial_world_def initial_state_def)
  have 6: "map (balance_of (snd (handleCreateAccountAct (Some ''NEW_C'') None (initial_world 0)))
          ''NEW_C'') [''ALPHA'', ''BETA'', ''GAMMA''] = [Some (Fin 0), Some (Fin 0), Some (Fin 0)]"
    using acc by (simp add: balance_of_def account_with_def initial_world_def
        initial_state_def)
  show ?thesis
    using 1 2 3 4 5 6 by simp
qed

text \<open>
  C9 as stated fails where the configured currency set has a code other than the
  three: with ALPHA, BETA, GAMMA and DELTA configured, the account created in the
  initial state has no DELTA balance at all. The missing balance is not a balance of
  zero: the validation lets the new account send 5 DELTA.
\<close>

theorem create_account_configured_code_counterexample:
  "fst (handleCreateAccountAct (Some ''NEW_C'') None (initial_world 0)) = None \<and>
   ''DELTA'' \<in> set [''ALPHA'', ''BETA'', ''GAMMA'', ''DELTA''] \<and>
   balance_of (snd (handleCreateAccountAct (Some ''NEW_C'') None (initial_world 0)))
     ''NEW_C'' ''DELTA'' = None \<and>
   balance_of (snd (handleCreateAccountAct (Some ''NEW_C'') None (initial_world 0)))
     ''NEW_C'' ''DELTA'' \<noteq> Some (Fin 0) \<and>
   (case validateAct [''ALPHA'', ''BETA'', ''GAMMA'', ''DELTA''] (Some ''NEW_C'')
           (Some ''CORE_BANK_A'') (Fin 5) ''DELTA''
           (currentState (snd (handleCreateAccountAct (Some ''NEW_C'') None (initial_world 0))))
           False of
      Inl e \<Rightarrow> False
    | Inr v \<Rightarrow> True)"
  by (simp add: handleCreateAccountAct_def getCurrentState_def initial_world_def
        initial_state_def Let_def addVibration_def saveSystemState_def balance_of_def
        account_with_def validateAct_def VIBRATION_LIMIT_def jle_def)

subsection \<open>Balances that are not negative\<close>

lemma debit_not_negative:
  assumes "\<not> jlt (toNumber x) a" and "\<And>v. x = Some v \<Longrightarrow> \<not> negative v"
    and "\<not> jle a (Fin 0)" and "\<not> isNaN a"
  shows "\<not> negative (jsub (toNumber x) a)"
proof (cases x)
  case None
  then show ?thesis by (simp add: jsub_def negative_def)
next
  case (Some v)
  show ?thesis
  proof (cases v)
    case (Fin b)
    show ?thesis
    proof (cases a)
      case (Fin m)
      have "0 \<le> b - m"
        using assms(1) Some \<open>v = Fin b\<close> Fin by simp
      then have "\<not> negative (round64 (b - m))"
        by (rule round64_not_negative)
      then show ?thesis
        using Some \<open>v = Fin b\<close> Fin by (simp add: jsub_def)
    qed (use assms Some Fin in \<open>auto simp: jsub_def negative_def jle_def\<close>)
  qed (use assms Some in \<open>cases a; auto simp: jsub_def negative_def jle_def\<close>)+
qed

lemma orZero_not_negative:
  assumes "\<And>v. x = Some v \<Longrightarrow> \<not> negative v"
  shows "\<not> negative (orZero x)"
proof (cases x)
  case None
  then show ?thesis by (simp add: negative_def)
next
  case (Some v)
  with assms show ?thesis
    by (cases v) (auto simp: negative_def)
qed

lemma negative_Fin: "negative (Fin r) \<longleftrightarrow> r < 0"
  by (simp add: negative_def)

lemma jadd_not_negative:
  assumes "\<not> negative a" and "\<not> negative b"
  shows "\<not> negative (jadd a b)"
proof (cases a)
  case (Fin x)
  show ?thesis
  proof (cases b)
    case (Fin y)
    have "0 \<le> x + y"
      using assms \<open>a = Fin x\<close> Fin by (simp add: negative_Fin)
    then show ?thesis
      using \<open>a = Fin x\<close> Fin by (simp add: round64_not_negative)
  qed (use assms Fin in \<open>auto simp: negative_def\<close>)
qed (use assms in \<open>cases b; auto simp: negative_def\<close>)+

lemma jmul_not_negative:
  assumes "\<not> negative a" and "\<not> negative b"
  shows "\<not> negative (jmul a b)"
proof (cases a)
  case (Fin x)
  show ?thesis
  proof (cases b)
    case (Fin y)
    have "0 \<le> x * y"
      using assms \<open>a = Fin x\<close> Fin by (simp add: negative_Fin)
    then show ?thesis
      using \<open>a = Fin x\<close> Fin by (simp add: round64_not_negative)
  qed (use assms Fin in \<open>auto simp: negative_def Let_def sgn_if\<close>)
qed (use assms in \<open>cases b; auto simp: negative_def Let_def sgn_if\<close>)+

lemma jdiv_not_negative:
  assumes "\<not> negative a" and "\<not> negative b"
  shows "\<not> negative (jdiv a b)"
proof (cases a)
  case (Fin x)
  show ?thesis
  proof (cases b)
    case (Fin y)
    have "0 \<le> x / y"
      using assms \<open>a = Fin x\<close> Fin by (simp add: negative_Fin)
    then have "\<not> negative (round64 (x / y))"
      by (rule round64_not_negative)
    then show ?thesis
      using assms \<open>a = Fin x\<close> Fin by (auto simp: negative_def)
  qed (use assms Fin in \<open>auto simp: negative_def\<close>)
qed (use assms in \<open>cases b; auto simp: negative_def\<close>)+

lemma amount_not_negative:
  "\<not> jle a (Fin 0) \<Longrightarrow> \<not> negative a"
  by (cases a) (auto simp: negative_def jle_def)

lemma rate_not_negative:
  assumes "\<And>code r. currency_rates state code = Some r \<Longrightarrow> 0 < r"
  shows "\<not> negative (rate_of state code)"
  using assms [of code] by (cases "currency_rates state code") (auto simp: rate_of_def negative_def)

lemma received_not_negative:
  assumes "\<not> jle a (Fin 0)"
    and "\<And>code r. currency_rates state code = Some r \<Longrightarrow> 0 < r"
  shows "\<not> negative (jmul a (jdiv (rate_of state to) (rate_of state from)))"
  using assms by (intro jmul_not_negative jdiv_not_negative amount_not_negative rate_not_negative)

lemma credit_not_negative:
  assumes "\<And>v. x = Some v \<Longrightarrow> \<not> negative v" and "\<not> negative r"
  shows "\<not> negative (jadd (orZero x) r)"
  using assms by (simp add: jadd_not_negative orZero_not_negative)

lemma find_distinct_id:
  "distinct (map acc_id xs) \<Longrightarrow> a \<in> set xs \<Longrightarrow>
   find (\<lambda>acc. Some (acc_id acc) = Some (acc_id a)) xs = Some a"
  by (induction xs) auto

lemma ledger_ok_saved:
  assumes "ledger_ok w" and "map acc_id as = map acc_id (accounts (currentState w))"
    and "no_negative_balance as"
  shows "ledger_ok (addVibration k (saveSystemState (P_accounts as) w))"
  using assms
  by (auto simp: ledger_ok_def well_formed_def addVibration_def saveSystemState_def Let_def)

lemma no_negative_balance_map:
  assumes "no_negative_balance xs"
    and "\<And>a code v. a \<in> set xs \<Longrightarrow> balances (f a) code = Some v \<Longrightarrow>
           (\<And>c u. balances a c = Some u \<Longrightarrow> \<not> negative u) \<Longrightarrow> \<not> negative v"
  shows "no_negative_balance (map f xs)"
  using assms unfolding no_negative_balance_def by (auto; blast)

lemma transfer_keeps_ledger_ok:
  assumes ok: "ledger_ok w"
  shows "ledger_ok (snd (actTransfer cs senderId recipientId amount currency w))"
proof (cases "validateAct cs senderId recipientId amount currency (currentState w) False")
  case (Inl e)
  then show ?thesis
    using ok by (simp add: actTransfer_def getCurrentState_def)
next
  case (Inr v)
  note facts = validateAct_Inr [OF Inr]
  let ?f = "\<lambda>acc. if Some (acc_id acc) = senderId then
                      acc\<lparr>balances := (balances acc)
                        (currency \<mapsto> jsub (toNumber (balances acc currency)) amount)\<rparr>
                    else if Some (acc_id acc) = recipientId then
                      acc\<lparr>balances := (balances acc)
                        (currency \<mapsto> jadd (orZero (balances acc currency)) amount)\<rparr>
                    else acc"
  have snd_eq: "snd (actTransfer cs senderId recipientId amount currency w) =
      addVibration 2 (saveSystemState (P_accounts (map ?f (accounts (currentState w)))) w)"
    using Inr facts(1)
    by (simp add: actTransfer_def getCurrentState_def Let_def cong: if_cong)
  obtain sender where sender: "account_with senderId (currentState w) = Some sender"
      and enough: "\<not> jlt (toNumber (balances sender currency)) amount"
    using facts(6) by auto
  have dist: "distinct (map acc_id (accounts (currentState w)))"
    using ok by (simp add: ledger_ok_def well_formed_def)
  have "no_negative_balance (map ?f (accounts (currentState w)))"
  proof (rule no_negative_balance_map)
    show "no_negative_balance (accounts (currentState w))"
      using ok by (simp add: ledger_ok_def)
  next
    fix a code v
    assume a: "a \<in> set (accounts (currentState w))"
      and v: "balances (?f a) code = Some v"
      and old: "\<And>c u. balances a c = Some u \<Longrightarrow> \<not> negative u"
    show "\<not> negative v"
    proof (cases "Some (acc_id a) = senderId")
      case True
      then have "account_with senderId (currentState w) = Some a"
        using find_distinct_id [OF dist a] by (auto simp: account_with_def)
      then have "a = sender"
        using sender by simp
      then have "\<not> negative (jsub (toNumber (balances a currency)) amount)"
        using enough old facts(2,3) by (intro debit_not_negative) auto
      then show ?thesis
        using True v old by (auto split: if_splits)
    next
      case False
      have "\<not> negative amount"
        using facts(2) by (rule amount_not_negative)
      then have "\<not> negative (jadd (orZero (balances a currency)) amount)"
        using old by (intro credit_not_negative) auto
      then show ?thesis
        using False v old by (auto split: if_splits)
    qed
  qed
  then show ?thesis
    unfolding snd_eq using ok by (intro ledger_ok_saved) simp_all
qed

lemma mint_keeps_ledger_ok:
  assumes ok: "ledger_ok w"
  shows "ledger_ok (snd (actMintCurrency cs recipientId amount currency w))"
proof (cases "validateAct cs None recipientId amount currency (currentState w) True")
  case (Inl e)
  then show ?thesis
    using ok by (simp add: actMintCurrency_def getCurrentState_def)
next
  case (Inr v)
  note facts = validateAct_Inr [OF Inr]
  let ?f = "\<lambda>acc. if Some (acc_id acc) = recipientId then
                      acc\<lparr>balances := (balances acc)
                        (currency \<mapsto> jadd (orZero (balances acc currency)) amount)\<rparr>
                    else acc"
  have snd_eq: "snd (actMintCurrency cs recipientId amount currency w) =
      addVibration 3 (saveSystemState (P_accounts (map ?f (accounts (currentState w)))) w)"
    using Inr facts(1)
    by (simp add: actMintCurrency_def getCurrentState_def Let_def cong: if_cong)
  have pos: "\<not> negative amount"
    using facts(2) by (rule amount_not_negative)
  have "no_negative_balance (map ?f (accounts (currentState w)))"
  proof (rule no_negative_balance_map)
    show "no_negative_balance (accounts (currentState w))"
      using ok by (simp add: ledger_ok_def)
  next
    fix a code v
    assume v: "balances (?f a) code = Some v"
      and old: "\<And>c u. balances a c = Some u \<Longrightarrow> \<not> negative u"
    have "\<not> negative (jadd (orZero (balances a currency)) amount)"
      using pos old by (intro credit_not_negative) auto
    then show "\<not> negative v"
      using v old by (auto split: if_splits)
  qed
  then show ?thesis
    unfolding snd_eq using ok by (intro ledger_ok_saved) simp_all
qed

lemma exchange_keeps_ledger_ok:
  assumes ok: "ledger_ok w"
  shows "ledger_ok (snd (actExchangeCurrency cs accountId amount from to w))"
proof (cases "validateAct cs accountId accountId amount from (currentState w) False")
  case (Inl e)
  then show ?thesis
    using ok by (simp add: actExchangeCurrency_def getCurrentState_def)
next
  case (Inr v)
  note facts = validateAct_Inr [OF Inr]
  show ?thesis
  proof (cases "from = to")
    case True
    then show ?thesis
      using ok Inr by (simp add: actExchangeCurrency_def getCurrentState_def)
  next
    case False
    let ?received = "jmul amount (jdiv (rate_of (currentState w) to)
                                       (rate_of (currentState w) from))"
    let ?f = "\<lambda>acc. if Some (acc_id acc) = accountId then
                        acc\<lparr>balances := (balances acc)
                          (from \<mapsto> jsub (toNumber (balances acc from)) amount,
                           to \<mapsto> jadd (orZero (balances acc to)) ?received)\<rparr>
                      else acc"
    have snd_eq: "snd (actExchangeCurrency cs accountId amount from to w) =
        addVibration 1 (saveSystemState (P_accounts (map ?f (accounts (currentState w)))) w)"
      using Inr False facts(1)
      by (simp add: actExchangeCurrency_def getCurrentState_def Let_def cong: if_cong)
    obtain sender where sender: "account_with accountId (currentState w) = Some sender"
        and enough: "\<not> jlt (toNumber (balances sender from)) amount"
      using facts(6) by auto
    have dist: "distinct (map acc_id (accounts (currentState w)))"
      and rates: "\<And>code r. currency_rates (currentState w) code = Some r \<Longrightarrow> 0 < r"
      using ok by (simp_all add: ledger_ok_def well_formed_def)
    have received: "\<not> negative ?received"
      using facts(2) rates by (rule received_not_negative)
    have "no_negative_balance (map ?f (accounts (currentState w)))"
    proof (rule no_negative_balance_map)
      show "no_negative_balance (accounts (currentState w))"
        using ok by (simp add: ledger_ok_def)
    next
      fix a code v
      assume a: "a \<in> set (accounts (currentState w))"
        and v: "balances (?f a) code = Some v"
        and old: "\<And>c u. balances a c = Some u \<Longrightarrow> \<not> negative u"
      show "\<not> negative v"
      proof (cases "Some (acc_id a) = accountId")
        case True
        then have "account_with accountId (currentState w) = Some a"
          using find_distinct_id [OF dist a] by (auto simp: account_with_def)
        then have "a = sender"
          using sender by simp
        then have debit: "\<not> negative (jsub (toNumber (balances a from)) amount)"
          using enough old facts(2,3) by (intro debit_not_negative) auto
        have credit: "\<not> negative (jadd (orZero (balances a to)) ?received)"
          using received old by (intro credit_not_negative) auto
        show ?thesis
          using True v old debit credit by (auto split: if_splits)
      next
        case False
        then show ?thesis
          using v old by auto
      qed
    qed
    then show ?thesis
      unfolding snd_eq using ok by (intro ledger_ok_saved) simp_all
  qed
qed

lemma create_keeps_ledger_ok:
  assumes ok: "ledger_ok w"
  shows "ledger_ok (snd (handleCreateAccountAct newId newName w))"
proof (cases "fst (handleCreateAccountAct newId newName w)")
  case (Some e)
  then have "snd (handleCreateAccountAct newId newName w) = w"
    by (auto simp: handleCreateAccountAct_def Let_def split: if_splits)
  then show ?thesis
    using ok by simp
next
  case None
  then obtain i where i: "newId = Some i"
      and fresh: "i \<notin> acc_id ` set (accounts (currentState w))"
    by (cases newId)
       (auto simp: handleCreateAccountAct_def getCurrentState_def Let_def list_ex_iff
          split: if_splits)
  let ?new = "\<lparr>acc_id = i,
               acc_name = (if falsy newName then default_name_label @ i else the newName),
               balances = [''ALPHA'' \<mapsto> Fin 0, ''BETA'' \<mapsto> Fin 0, ''GAMMA'' \<mapsto> Fin 0]\<rparr>"
  have snd_eq: "snd (handleCreateAccountAct newId newName w) =
      addVibration 1 (saveSystemState (P_accounts (accounts (currentState w) @ [?new])) w)"
    using None i
    by (auto simp: handleCreateAccountAct_def getCurrentState_def Let_def split: if_splits)
  show ?thesis
    unfolding snd_eq using ok fresh
    by (auto simp: ledger_ok_def well_formed_def no_negative_balance_def negative_def
          addVibration_def saveSystemState_def Let_def split: if_splits)
qed

lemma ledger_step_keeps_ledger_ok:
  "ledger_ok w \<Longrightarrow> ledger_ok (ledger_step cs act w)"
  by (cases act)
     (simp_all add: transfer_keeps_ledger_ok mint_keeps_ledger_ok exchange_keeps_ledger_ok
        create_keeps_ledger_ok)

lemma run_keeps_ledger_ok:
  "ledger_ok w \<Longrightarrow> ledger_ok (fold (ledger_step cs) acts w)"
  by (induction acts arbitrary: w) (simp_all add: ledger_step_keeps_ledger_ok)

lemma overdraft_refused:
  assumes "balance_of w sender currency = Some (Fin b)" and "jlt (Fin b) amount"
  shows "\<exists>e. validateAct cs (Some sender) recipientId amount currency (currentState w) False
           = Inl e"
  using assms
  by (auto simp: validateAct_def balance_of_def account_with_def Let_def split: option.splits)

text \<open>
  What the acts do keep: from a state of the data model (unique ids, positive rates)
  in which no account holds a negative balance, every sequence of transfers, mints,
  exchanges and account creations on balance keys, carried out or refused, leaves
  such a state, and no account list with a negative balance is written to the
  document store. A transfer or an exchange that asks for more than the balance the
  sender holds in the debited currency is refused and changes nothing.
\<close>

lemma plain_acts_keep_ledger_ok:
  "(ledger_ok w \<and> list_all plain_act acts \<longrightarrow> ledger_ok (fold (ledger_step cs) acts w)) \<and>
   (\<forall>b. balance_of w sender currency = Some (Fin b) \<and> jlt (Fin b) amount \<longrightarrow>
      fst (actTransfer cs (Some sender) recipientId amount currency w) \<noteq> None \<and>
      snd (actTransfer cs (Some sender) recipientId amount currency w) = w \<and>
      fst (actExchangeCurrency cs (Some sender) amount currency toCurrency w) \<noteq> None \<and>
      snd (actExchangeCurrency cs (Some sender) amount currency toCurrency w) = w)"
proof (intro conjI impI allI)
  assume "ledger_ok w \<and> list_all plain_act acts"
  then show "ledger_ok (fold (ledger_step cs) acts w)"
    by (simp add: run_keeps_ledger_ok)
next
  fix b
  assume low: "balance_of w sender currency = Some (Fin b) \<and> jlt (Fin b) amount"
  obtain e where e: "validateAct cs (Some sender) recipientId amount currency (currentState w)
      False = Inl e"
    using overdraft_refused low by blast
  obtain e' where e': "validateAct cs (Some sender) (Some sender) amount currency
      (currentState w) False = Inl e'"
    using overdraft_refused low by blast
  show "fst (actTransfer cs (Some sender) recipientId amount currency w) \<noteq> None"
    and "snd (actTransfer cs (Some sender) recipientId amount currency w) = w"
    using e by (simp_all add: actTransfer_def getCurrentState_def)
  show "fst (actExchangeCurrency cs (Some sender) amount currency toCurrency w) \<noteq> None"
    and "snd (actExchangeCurrency cs (Some sender) amount currency toCurrency w) = w"
    using e' by (simp_all add: actExchangeCurrency_def getCurrentState_def)
qed

lemma initial_world_ledger_ok: "ledger_ok (initial_world t0)"
  by (auto simp: ledger_ok_def well_formed_def no_negative_balance_def negative_def
        initial_world_def initial_state_def split: if_splits)

text \<open>
  C4, at a state in which no balance is negative. In \<open>renamed_world\<close>, the state that
  the code reaches from the initial state by the creation of the account
  \<^verbatim>\<open>CORE_BANK_ANaN\<close> and the exchange of 5 ALPHA of \<^verbatim>\<open>CORE_BANK_A\<close> into the
  target \<^verbatim>\<open>id\<close>, two accounts have the id \<^verbatim>\<open>CORE_BANK_ANaN\<close>; they hold 995 and 0
  ALPHA, and every balance of every account is zero or more. The transfer of 100 ALPHA
  from that id to \<^verbatim>\<open>USER_AUDIT_B\<close> is validated against the first of the two and
  carried out: the mapping debits both, the second account is left with \<open>-100\<close> ALPHA,
  and the account list with the negative balance is written to the document store.
\<close>

theorem renamed_account_overdrawn:
  "map balances (accounts (currentState renamed_world)) =
     [[''ALPHA'' \<mapsto> Fin 995, ''BETA'' \<mapsto> Fin 500, ''GAMMA'' \<mapsto> Fin 100],
      [''ALPHA'' \<mapsto> Fin 50, ''BETA'' \<mapsto> Fin 0, ''GAMMA'' \<mapsto> Fin 0],
      [''ALPHA'' \<mapsto> Fin 0, ''BETA'' \<mapsto> Fin 0, ''GAMMA'' \<mapsto> Fin 0]] \<and>
   map acc_id (accounts (currentState renamed_world)) =
     [''CORE_BANK_ANaN'', ''USER_AUDIT_B'', ''CORE_BANK_ANaN''] \<and>
   fst (actTransfer CURRENCIES (Some ''CORE_BANK_ANaN'') (Some ''USER_AUDIT_B'') (Fin 100)
          ''ALPHA'' renamed_world) = None \<and>
   map (\<lambda>acc. balances acc ''ALPHA'')
     (accounts (currentState (snd (actTransfer CURRENCIES (Some ''CORE_BANK_ANaN'')
        (Some ''USER_AUDIT_B'') (Fin 100) ''ALPHA'' renamed_world)))) =
     [Some (Fin 895), Some (Fin 150), Some (Fin (- 100))] \<and>
   firestore (snd (actTransfer CURRENCIES (Some ''CORE_BANK_ANaN'') (Some ''USER_AUDIT_B'')
        (Fin 100) ''ALPHA'' renamed_world)) =
     [P_accounts (accounts (currentState (snd (actTransfer CURRENCIES (Some ''CORE_BANK_ANaN'')
        (Some ''USER_AUDIT_B'') (Fin 100) ''ALPHA'' renamed_world)))),
      P_vibration_level \<lparr>vib_value = 4, last_decay = 0\<rparr>]"
  by (simp add: actTransfer_def validateAct_def getCurrentState_def renamed_world_def
        initial_state_def CURRENCIES_def VIBRATION_LIMIT_def jle_def Let_def
        addVibration_def saveSystemState_def jsub_def round64_numeral round64_neg_numeral)

subsection \<open>Transfers and the total supply\<close>

lemma moved_sum:
  assumes "distinct (map acc_id xs)" and "s \<noteq> r"
  shows "sum_list (map (\<lambda>a. g a + (if acc_id a = s then - m else if acc_id a = r then m else 0)) xs)
         = sum_list (map g xs) + (if s \<in> acc_id ` set xs then - m else 0)
             + (if r \<in> acc_id ` set xs then m else (0::real))"
  using assms by (induction xs) auto

text \<open>
  A successful transfer in a currency that is a balance key, between two different
  ids, the recipient id not empty, in a state with unique ids where every account
  holds a finite number in the currency: the amount is a positive number within the
  sender's balance, the sender's balance becomes the nearest binary64 number to the
  balance less the amount, the recipient's the nearest binary64 number to the balance
  plus the amount; when both results are exact, the sum of the balances of the
  currency over the accounts is the same before and after.
\<close>

lemma transfer_moves_amount:
  "fst (actTransfer cs (Some s) (Some r) amount code w) = None \<and> s \<noteq> r \<and> r \<noteq> [] \<and>
   balance_key code \<and>
   distinct (map acc_id (accounts (currentState w))) \<and>
   all_finite code (accounts (currentState w))
   \<longrightarrow>
   (\<exists>m bs br.
      amount = Fin m \<and> 0 < m \<and> m \<le> bs \<and>
      balance_of w s code = Some (Fin bs) \<and> balance_of w r code = Some (Fin br) \<and>
      balance_of (snd (actTransfer cs (Some s) (Some r) amount code w)) s code
        = Some (round64 (bs - m)) \<and>
      balance_of (snd (actTransfer cs (Some s) (Some r) amount code w)) r code
        = Some (round64 (br + m)) \<and>
      (round64 (bs - m) = Fin (bs - m) \<and> round64 (br + m) = Fin (br + m) \<longrightarrow>
         sum_list (map (finite_balance code)
           (accounts (currentState (snd (actTransfer cs (Some s) (Some r) amount code w)))))
         = sum_list (map (finite_balance code) (accounts (currentState w)))))"
proof (intro impI, elim conjE)
  let ?w' = "snd (actTransfer cs (Some s) (Some r) amount code w)"
  let ?xs = "accounts (currentState w)"
  assume ok: "fst (actTransfer cs (Some s) (Some r) amount code w) = None"
    and sr: "s \<noteq> r" and given: "r \<noteq> []"
    and dist: "distinct (map acc_id ?xs)"
    and fin: "all_finite code ?xs"
  obtain v where v: "validateAct cs (Some s) (Some r) amount code (currentState w) False = Inr v"
    using ok by (cases "validateAct cs (Some s) (Some r) amount code (currentState w) False")
      (simp_all add: actTransfer_def getCurrentState_def)
  note facts = validateAct_Inr [OF v]
  obtain sa where sa: "account_with (Some s) (currentState w) = Some sa"
      and enough: "\<not> jlt (toNumber (balances sa code)) amount"
    using facts(6) by auto
  obtain ra where ra: "account_with (Some r) (currentState w) = Some ra"
    using facts(7) given by auto
  have sa_in: "sa \<in> set ?xs" and ra_in: "ra \<in> set ?xs"
    using sa ra by (auto simp: account_with_def find_Some_iff)
  have sa_id: "acc_id sa = s"
    using find_has_id [OF sa [unfolded account_with_def]] by simp
  have ra_id: "acc_id ra = r"
    using find_has_id [OF ra [unfolded account_with_def]] by simp
  obtain bs br where bs: "balances sa code = Some (Fin bs)"
      and br: "balances ra code = Some (Fin br)"
    using fin sa_in ra_in unfolding all_finite_def list_all_iff by blast
  have "\<not> jlt (Fin bs) amount"
    using enough bs by simp
  then obtain m where m: "amount = Fin m" "0 < m" "m \<le> bs"
    using positive_amount_within facts(2,3) by blast
  let ?f = "\<lambda>acc. if Some (acc_id acc) = Some s then
                      acc\<lparr>balances := (balances acc)
                        (code \<mapsto> jsub (toNumber (balances acc code)) amount)\<rparr>
                    else if Some (acc_id acc) = Some r then
                      acc\<lparr>balances := (balances acc)
                        (code \<mapsto> jadd (orZero (balances acc code)) amount)\<rparr>
                    else acc"
  have snd_eq: "?w' = addVibration 2 (saveSystemState (P_accounts (map ?f ?xs)) w)"
    using v facts(1)
    by (simp add: actTransfer_def getCurrentState_def Let_def cong: if_cong)
  have accs': "accounts (currentState ?w') = map ?f ?xs"
    unfolding snd_eq by (rule accounts_saved)
  have same: "\<And>a. acc_id (?f a) = acc_id a"
    by simp
  have look: "account_with (Some Y) (currentState ?w') =
      map_option ?f (account_with (Some Y) (currentState w))" for Y
    unfolding account_with_def accs' by (rule find_map_same_id [OF same])
  have after_s: "balance_of ?w' s code = Some (round64 (bs - m))"
    using look [of s] sa sa_id bs m(1) by (simp add: balance_of_def jsub_Fin)
  have after_r: "balance_of ?w' r code = Some (round64 (br + m))"
    using look [of r] ra ra_id br m(1) sr by (simp add: balance_of_def)
  have before: "balance_of w s code = Some (Fin bs)" "balance_of w r code = Some (Fin br)"
    using sa ra bs br by (simp_all add: balance_of_def)
  have sums: "sum_list (map (finite_balance code) (accounts (currentState ?w'))) =
      sum_list (map (finite_balance code) ?xs)"
    if exact: "round64 (bs - m) = Fin (bs - m) \<and> round64 (br + m) = Fin (br + m)"
  proof -
    have step: "finite_balance code (?f a) =
        finite_balance code a + (if acc_id a = s then - m else if acc_id a = r then m else 0)"
      if a: "a \<in> set ?xs" for a
    proof -
      consider "acc_id a = s" | "acc_id a \<noteq> s" "acc_id a = r" | "acc_id a \<noteq> s" "acc_id a \<noteq> r"
        by blast
      then show ?thesis
      proof cases
        case 1
        then have "a = sa"
          using find_distinct_id [OF dist a] sa unfolding account_with_def by simp
        then show ?thesis
          using 1 bs m(1) exact by (simp add: finite_balance_def jsub_Fin)
      next
        case 2
        then have "a = ra"
          using find_distinct_id [OF dist a] ra unfolding account_with_def by simp
        then show ?thesis
          using 2 br m(1) exact by (simp add: finite_balance_def)
      next
        case 3
        then show ?thesis by simp
      qed
    qed
    have "sum_list (map (finite_balance code) (map ?f ?xs)) =
          sum_list (map (\<lambda>a. finite_balance code a +
            (if acc_id a = s then - m else if acc_id a = r then m else 0)) ?xs)"
      using step by (simp add: comp_def cong: map_cong)
    also have "\<dots> = sum_list (map (finite_balance code) ?xs)
        + (if s \<in> acc_id ` set ?xs then - m else 0) + (if r \<in> acc_id ` set ?xs then m else 0)"
      by (rule moved_sum [OF dist sr])
    also have "\<dots> = sum_list (map (finite_balance code) ?xs)"
      using sa_in ra_in sa_id ra_id by auto
    finally show ?thesis
      unfolding accs' .
  qed
  show "\<exists>m bs br.
      amount = Fin m \<and> 0 < m \<and> m \<le> bs \<and>
      balance_of w s code = Some (Fin bs) \<and> balance_of w r code = Some (Fin br) \<and>
      balance_of ?w' s code = Some (round64 (bs - m)) \<and>
      balance_of ?w' r code = Some (round64 (br + m)) \<and>
      (round64 (bs - m) = Fin (bs - m) \<and> round64 (br + m) = Fin (br + m) \<longrightarrow>
         sum_list (map (finite_balance code) (accounts (currentState ?w')))
         = sum_list (map (finite_balance code) ?xs))"
    using m before after_s after_r sums by blast
qed

lemma transfer_moves_amount_example:
  "balance_of (snd (actTransfer CURRENCIES (Some ''CORE_BANK_A'') (Some ''USER_AUDIT_B'') (Fin 50)
      ''ALPHA'' (initial_world 0))) ''CORE_BANK_A'' ''ALPHA'' = Some (Fin 950) \<and>
   balance_of (snd (actTransfer CURRENCIES (Some ''CORE_BANK_A'') (Some ''USER_AUDIT_B'') (Fin 50)
      ''ALPHA'' (initial_world 0))) ''USER_AUDIT_B'' ''ALPHA'' = Some (Fin 100) \<and>
   total_supply ''ALPHA'' (snd (actTransfer CURRENCIES (Some ''CORE_BANK_A'')
      (Some ''USER_AUDIT_B'') (Fin 50) ''ALPHA'' (initial_world 0))) = Fin 1050"
  by (simp add: actTransfer_def validateAct_def getCurrentState_def initial_world_def
        initial_state_def CURRENCIES_def VIBRATION_LIMIT_def jle_def Let_def
        addVibration_def saveSystemState_def balance_of_def account_with_def
        total_supply_def jsub_def round64_numeral)

text \<open>
  C1, at a transfer from an account to itself. In the initial state, the transfer of
  50 ALPHA from CORE\_BANK\_A to CORE\_BANK\_A passes the validation and is carried
  out: the mapping over the accounts takes the sender branch for the account and
  never reaches the recipient branch, so the balance falls from 1000 to 950, nothing
  is credited, and the total supply of ALPHA falls from 1050 to 1000.
\<close>

theorem transfer_to_self_burns:
  "fst (actTransfer CURRENCIES (Some ''CORE_BANK_A'') (Some ''CORE_BANK_A'') (Fin 50) ''ALPHA''
          (initial_world 0)) = None \<and>
   balance_of (initial_world 0) ''CORE_BANK_A'' ''ALPHA'' = Some (Fin 1000) \<and>
   balance_of (snd (actTransfer CURRENCIES (Some ''CORE_BANK_A'') (Some ''CORE_BANK_A'') (Fin 50)
      ''ALPHA'' (initial_world 0))) ''CORE_BANK_A'' ''ALPHA'' = Some (Fin 950) \<and>
   total_supply ''ALPHA'' (initial_world 0) = Fin 1050 \<and>
   total_supply ''ALPHA'' (snd (actTransfer CURRENCIES (Some ''CORE_BANK_A'')
      (Some ''CORE_BANK_A'') (Fin 50) ''ALPHA'' (initial_world 0))) = Fin 1000"
  by (simp add: actTransfer_def validateAct_def getCurrentState_def initial_world_def
        initial_state_def CURRENCIES_def VIBRATION_LIMIT_def jle_def Let_def
        addVibration_def saveSystemState_def balance_of_def account_with_def
        total_supply_def jsub_def round64_numeral)

end
